theory Spec2Isabelle
  imports Complex_Main "HOL-Library.Word"
begin

section \<open>gcdeck: rendering deck markup on the gio canvas\<close>

text \<open>
  A shallow embedding of \<^verbatim>\<open>gcdeck/gcdeck.go\<close>.

  Numbers. Go's \<^verbatim>\<open>float64\<close> and \<^verbatim>\<open>float32\<close> are modelled by the rationals: every
  arithmetic operation is exact, the conversions between the two widths are the
  identity, and infinities and NaN do not exist (a division by zero is therefore outside
  the model; the theorems that divide by a variable say so in a hypothesis). Go's
  \<^verbatim>\<open>int\<close> is \<open>int\<close> (nothing here reaches the ends of its 64 bits); \<^verbatim>\<open>uint8\<close> is
  \<open>8 word\<close>. A conversion from a float to an
  integer type truncates toward zero; where the truncated value does not fit the
  integer type Go leaves the result to the implementation, and the model takes it from
  the environment.

  Strings. A Go string is a \<open>string\<close>, except the page-size token, which is the list
  of its runes (code points), because \<^verbatim>\<open>strings.FieldsFunc\<close> splits at runes.

  The world outside the file (the canvas of giocanvas, the colour table, the file
  system, the image decoders, the parts of the standard library that are tables) is a
  record of functions, \<open>env\<close>, that every operation takes as its first argument.
\<close>

subsection \<open>Colours, drawing calls and the environment\<close>

record NRGBA =
  R :: "8 word"
  G :: "8 word"
  B :: "8 word"
  A :: "8 word"

text \<open>One constructor per method of the canvas that the file calls, with the
  arguments of the call. A canvas is the list of the calls made on it, oldest first.
  The world a slide is rendered into is the canvas and what was written to standard
  error.\<close>

datatype drawop =
    doc_Background NRGBA
  | doc_Line rat rat rat rat rat NRGBA
  | doc_Arc rat rat rat rat rat NRGBA
  | doc_StrokedCurve rat rat rat rat rat rat rat NRGBA
  | doc_CenterRect rat rat rat rat NRGBA
  | doc_Ellipse rat rat rat rat NRGBA
  | doc_Circle rat rat rat NRGBA
  | doc_Polygon "rat list" "rat list" NRGBA
  | doc_TextWrap rat rat rat rat string NRGBA
  | doc_Text rat rat rat string NRGBA
  | doc_TextMid rat rat rat string NRGBA
  | doc_TextEnd rat rat rat string NRGBA
  | doc_Image string rat rat int int rat
  | doc_Rotate rat rat rat
  | gc_EndTransform

type_synonym canvas = "drawop list"

definition emit :: "drawop \<Rightarrow> canvas \<Rightarrow> canvas" where
  "emit c doc = doc @ [c]"

record world =
  canvas_of :: canvas
  stderr :: "string list"

record env =
  ColorLookup :: "string \<Rightarrow> NRGBA"
  ReadFile :: "string \<Rightarrow> string + string"
  DecodeConfig :: "string \<Rightarrow> (int \<times> int) option"
  ParseFloat_other :: "string \<Rightarrow> nat \<Rightarrow> rat option"
  IsNumber_table :: "nat \<Rightarrow> bool"
  uint8_unrepresentable :: "rat \<Rightarrow> 8 word"
  int_unrepresentable :: "rat \<Rightarrow> int"

text \<open>
  \<^item> \<open>ColorLookup\<close>: \<^verbatim>\<open>gc.ColorLookup\<close>.
  \<^item> \<open>ReadFile\<close>: the file system, as \<^verbatim>\<open>os.ReadFile\<close> and \<^verbatim>\<open>os.Open\<close> see it:
    \<open>Inl\<close> the error's text, \<open>Inr\<close> the contents.
  \<^item> \<open>DecodeConfig\<close>: \<^verbatim>\<open>image.DecodeConfig\<close> on a file's contents: the width and
    height, or \<open>None\<close> for an error.
  \<^item> \<open>ParseFloat_other\<close>: \<^verbatim>\<open>strconv.ParseFloat\<close> on the strings that are not plain
    runs of decimal digits (signs, fractions, exponents, errors).
  \<^item> \<open>IsNumber_table\<close>: the Unicode category N above U+00FF.
  \<^item> \<open>uint8_unrepresentable\<close>, \<open>int_unrepresentable\<close>: what a float to integer
    conversion yields when the truncated value does not fit.
\<close>

subsection \<open>Conversions\<close>

definition trunc :: "rat \<Rightarrow> int" where
  "trunc x = (if 0 \<le> x then \<lfloor>x\<rfloor> else \<lceil>x\<rceil>)"

definition uint8 :: "env \<Rightarrow> rat \<Rightarrow> 8 word" where
  "uint8 E x = (if 0 \<le> trunc x \<and> trunc x \<le> 255 then word_of_int (trunc x)
                else uint8_unrepresentable E x)"

definition int_of_float :: "env \<Rightarrow> rat \<Rightarrow> int" where
  "int_of_float E x =
     (if - (2 ^ 63) \<le> trunc x \<and> trunc x < 2 ^ 63 then trunc x
      else int_unrepresentable E x)"

subsection \<open>strconv.ParseFloat, unicode.IsNumber, strings.FieldsFunc, strings.Split\<close>

definition isdigit :: "char \<Rightarrow> bool" where
  "isdigit c = (48 \<le> (of_char c :: nat) \<and> (of_char c :: nat) \<le> 57)"

definition decimal :: "string \<Rightarrow> nat" where
  "decimal s = foldl (\<lambda>a c. 10 * a + (of_char c - 48)) 0 s"

text \<open>The largest finite value of the width: \<^verbatim>\<open>math.MaxFloat64\<close>, \<^verbatim>\<open>math.MaxFloat32\<close>.\<close>

definition MaxFloat :: "nat \<Rightarrow> int" where
  "MaxFloat bitSize = (if bitSize = 32 then 2 ^ 128 - 2 ^ 104 else 2 ^ 1024 - 2 ^ 971)"

text \<open>A non-empty run of decimal digits whose value is at most the largest finite float
  parses to that value; every other string is the environment's.\<close>

definition ParseFloat :: "env \<Rightarrow> string \<Rightarrow> nat \<Rightarrow> rat option" where
  "ParseFloat E s bitSize =
     (if s \<noteq> [] \<and> list_all isdigit s \<and> int (decimal s) \<le> MaxFloat bitSize
      then Some (of_nat (decimal s))
      else ParseFloat_other E s bitSize)"

text \<open>The grammar of \<^verbatim>\<open>ParseFloat\<close> is ASCII: a string with a rune above U+007F is a
  syntax error.\<close>

definition ParseFloat_runes :: "env \<Rightarrow> nat list \<Rightarrow> nat \<Rightarrow> rat option" where
  "ParseFloat_runes E rs bitSize =
     (if list_all (\<lambda>r. r < 128) rs then ParseFloat E (map char_of rs) bitSize else None)"

text \<open>\<^verbatim>\<open>unicode.IsNumber\<close>: up to U+00FF the digits, the superscripts 2, 3 and 1 and the
  fractions one quarter, one half and three quarters; above, the range table.\<close>

definition IsNumber :: "env \<Rightarrow> nat \<Rightarrow> bool" where
  "IsNumber E r =
     (if r \<le> 0xFF
      then (0x30 \<le> r \<and> r \<le> 0x39) \<or> r \<in> {0xB2, 0xB3, 0xB9, 0xBC, 0xBD, 0xBE}
      else IsNumber_table E r)"

text \<open>\<^verbatim>\<open>strings.FieldsFunc(s, f)\<close>: the maximal runs of runes that do not satisfy \<open>f\<close>.
  \<open>cur\<close> is the field being read.\<close>

fun FieldsFunc_from :: "('a \<Rightarrow> bool) \<Rightarrow> 'a list \<Rightarrow> 'a list \<Rightarrow> 'a list list" where
  "FieldsFunc_from f cur [] = (if cur = [] then [] else [cur])"
| "FieldsFunc_from f cur (c # cs) =
     (if f c then (if cur = [] then FieldsFunc_from f [] cs else cur # FieldsFunc_from f [] cs)
      else FieldsFunc_from f (cur @ [c]) cs)"

definition FieldsFunc :: "'a list \<Rightarrow> ('a \<Rightarrow> bool) \<Rightarrow> 'a list list" where
  "FieldsFunc s f = FieldsFunc_from f [] s"

text \<open>\<^verbatim>\<open>strings.Split(s, sep)\<close> for a separator of one character: one more field than
  there are separators, empty fields included.\<close>

fun Split_from :: "char \<Rightarrow> string \<Rightarrow> string \<Rightarrow> string list" where
  "Split_from sep cur [] = [cur]"
| "Split_from sep cur (c # cs) =
     (if c = sep then cur # Split_from sep [] cs else Split_from sep (cur @ [c]) cs)"

definition Split :: "string \<Rightarrow> char \<Rightarrow> string list" where
  "Split s sep = Split_from sep [] s"

subsection \<open>Constants and page sizes\<close>

definition mm2pt :: rat where "mm2pt = 283464 / 100000"
definition linespacing :: rat where "linespacing = 18 / 10"
definition listspacing :: rat where "listspacing = 18 / 10"
definition fontfactor :: rat where "fontfactor = 1"
definition listwrap :: rat where "listwrap = 95"

record PageDimen =
  width :: rat
  height :: rat
  unit :: rat

definition runes :: "string \<Rightarrow> nat list" where
  "runes s = map of_char s"

definition pagemap :: "(nat list \<times> PageDimen) list" where
  "pagemap =
    [(runes ''Letter'', \<lparr>width = 792, height = 612, unit = 1\<rparr>),
     (runes ''Legal'', \<lparr>width = 1008, height = 612, unit = 1\<rparr>),
     (runes ''Tabloid'', \<lparr>width = 1224, height = 792, unit = 1\<rparr>),
     (runes ''ArchA'', \<lparr>width = 864, height = 648, unit = 1\<rparr>),
     (runes ''Widescreen'', \<lparr>width = 1152, height = 648, unit = 1\<rparr>),
     (runes ''4R'', \<lparr>width = 432, height = 288, unit = 1\<rparr>),
     (runes ''Index'', \<lparr>width = 360, height = 216, unit = 1\<rparr>),
     (runes ''A2'', \<lparr>width = 420, height = 594, unit = mm2pt\<rparr>),
     (runes ''A3'', \<lparr>width = 420, height = 297, unit = mm2pt\<rparr>),
     (runes ''A4'', \<lparr>width = 297, height = 210, unit = mm2pt\<rparr>),
     (runes ''A5'', \<lparr>width = 210, height = 148, unit = mm2pt\<rparr>)]"

text \<open>\<^verbatim>\<open>p, ok := pagemap[s]\<close>: a missing key gives the zero value and \<open>False\<close>.\<close>

definition pagemap_get :: "nat list \<Rightarrow> PageDimen \<times> bool" where
  "pagemap_get s =
     (case map_of pagemap s of
        Some p \<Rightarrow> (p, True)
      | None \<Rightarrow> (\<lparr>width = 0, height = 0, unit = 0\<rparr>, False))"

definition setpagesize :: "env \<Rightarrow> nat list \<Rightarrow> rat \<times> rat" where
  "setpagesize E s =
     (let d = FieldsFunc s (\<lambda>c. \<not> IsNumber E c) in
      if length d \<noteq> 2 then (0, 0)
      else case ParseFloat_runes E (d ! 0) 64 of
             None \<Rightarrow> (0, 0)
           | Some w \<Rightarrow>
               (case ParseFloat_runes E (d ! 1) 64 of
                  None \<Rightarrow> (0, 0)
                | Some h \<Rightarrow> (w, h)))"

definition pagedim :: "env \<Rightarrow> nat list \<Rightarrow> rat \<times> rat" where
  "pagedim E s =
     (let (pw, ph) = setpagesize E s in
      if pw = 0 \<and> ph = 0
      then (let (p, ok) = pagemap_get s;
                p = (if \<not> ok then fst (pagemap_get (runes ''Letter'')) else p)
            in (width p * unit p, height p * unit p))
      else (pw, ph))"

subsection \<open>Small helpers\<close>

definition pct :: "rat \<Rightarrow> rat \<Rightarrow> rat" where
  "pct p m = (p / 100) * m"

text \<open>\<^verbatim>\<open>math.Pi\<close>, as the \<^verbatim>\<open>float64\<close> nearest to it.\<close>

definition math_Pi :: rat where
  "math_Pi = 884279719003555 / 281474976710656"

definition radians :: "rat \<Rightarrow> rat" where
  "radians degrees = degrees * math_Pi / 180"

definition setop :: "env \<Rightarrow> rat \<Rightarrow> 8 word" where
  "setop E v = (if v > 0 then uint8 E (255 * (v / 100)) else 255)"

definition gradient :: "canvas \<Rightarrow> rat \<Rightarrow> rat \<Rightarrow> string \<Rightarrow> string \<Rightarrow> rat \<Rightarrow> canvas" where
  "gradient doc w h gc1 gc2 gp = doc"

definition loadfont :: "canvas \<Rightarrow> string \<Rightarrow> rat \<Rightarrow> canvas" where
  "loadfont doc s size' = doc"

text \<open>\<^verbatim>\<open>codemap\<close>: every tab becomes four spaces.\<close>

definition codemap_Replace :: "string \<Rightarrow> string" where
  "codemap_Replace s = concat (map (\<lambda>c. if c = CHR 0x09 then ''    '' else [c]) s)"

text \<open>\<^verbatim>\<open>includefile\<close> returns the contents and what it wrote to standard error.\<close>

definition includefile :: "env \<Rightarrow> string \<Rightarrow> string \<times> string list" where
  "includefile E filename =
     (case ReadFile E filename of
        Inl err \<Rightarrow> ([], [err @ [CHR 0x0A]])
      | Inr data \<Rightarrow> (codemap_Replace data, []))"

subsection \<open>The deck (package deck), as far as the file reads it\<close>

record ListItem =
  Color :: string
  ListText :: string

record Image =
  Name :: string
  Xp :: rat
  Yp :: rat
  Width :: int
  Height :: int
  Scale :: rat
  Caption :: string
  Font :: string
  Color :: string
  Align :: string

record Rect =
  Xp :: rat
  Yp :: rat
  Wp :: rat
  Hp :: rat
  Hr :: rat
  Color :: string
  Opacity :: rat

record Ellipse =
  Xp :: rat
  Yp :: rat
  Wp :: rat
  Hp :: rat
  Hr :: rat
  Color :: string
  Opacity :: rat

record Curve =
  Xp1 :: rat
  Yp1 :: rat
  Xp2 :: rat
  Yp2 :: rat
  Xp3 :: rat
  Yp3 :: rat
  Sp :: rat
  Color :: string
  Opacity :: rat

record Arc =
  Xp :: rat
  Yp :: rat
  Wp :: rat
  Hp :: rat
  A1 :: rat
  A2 :: rat
  Sp :: rat
  Color :: string
  Opacity :: rat

record Line =
  Xp1 :: rat
  Yp1 :: rat
  Xp2 :: rat
  Yp2 :: rat
  Sp :: rat
  Color :: string
  Opacity :: rat

record Polygon =
  XC :: string
  YC :: string
  Color :: string
  Opacity :: rat

record Text =
  Xp :: rat
  Yp :: rat
  Sp :: rat
  Wp :: rat
  Rotation :: rat
  Lp :: rat
  Tdata :: string
  File :: string
  Font :: string
  Align :: string
  Type :: string
  Color :: string
  Opacity :: rat

record List =
  Xp :: rat
  Yp :: rat
  Sp :: rat
  Wp :: rat
  Rotation :: rat
  Lp :: rat
  Li :: "ListItem list"
  Font :: string
  Type :: string
  Align :: string
  Color :: string
  Opacity :: rat

record Slide =
  Bg :: string
  Fg :: string
  Gradcolor1 :: string
  Gradcolor2 :: string
  GradPercent :: rat
  Image :: "Image list"
  Rect :: "Rect list"
  Ellipse :: "Ellipse list"
  Curve :: "Curve list"
  Arc :: "Arc list"
  Line :: "Line list"
  Polygon :: "Polygon list"
  Text :: "Text list"
  List :: "List list"

record Canvas =
  Width :: int
  Height :: int

record Deck =
  Canvas :: Canvas
  Slide :: "Slide list"

subsection \<open>Shapes\<close>

definition doline ::
  "env \<Rightarrow> canvas \<Rightarrow> rat \<Rightarrow> rat \<Rightarrow> rat \<Rightarrow> rat \<Rightarrow> rat \<Rightarrow> string \<Rightarrow> rat \<Rightarrow> canvas" where
  "doline E doc xp1 yp1 xp2 yp2 sw color opacity =
     (let c = ColorLookup E color;
          c = c\<lparr>A := setop E opacity\<rparr>
      in emit (doc_Line xp1 yp1 xp2 yp2 sw c) doc)"

definition doarc ::
  "env \<Rightarrow> canvas \<Rightarrow> rat \<Rightarrow> rat \<Rightarrow> rat \<Rightarrow> rat \<Rightarrow> rat \<Rightarrow> rat \<Rightarrow> rat \<Rightarrow> string \<Rightarrow> rat \<Rightarrow> canvas" where
  "doarc E doc x y w h a1 a2 sw color opacity =
     (let c = ColorLookup E color;
          c = c\<lparr>A := setop E opacity\<rparr>
      in emit (doc_Arc x y (w * 2) (radians a1) (radians a2) c) doc)"

definition docurve ::
  "env \<Rightarrow> canvas \<Rightarrow> rat \<Rightarrow> rat \<Rightarrow> rat \<Rightarrow> rat \<Rightarrow> rat \<Rightarrow> rat \<Rightarrow> rat \<Rightarrow> string \<Rightarrow> rat \<Rightarrow> canvas" where
  "docurve E doc xp1 yp1 xp2 yp2 xp3 yp3 sw color opacity =
     (let c = ColorLookup E color;
          c = c\<lparr>A := setop E opacity\<rparr>
      in emit (doc_StrokedCurve xp1 yp1 xp2 yp2 xp3 yp3 sw c) doc)"

definition dorect ::
  "env \<Rightarrow> canvas \<Rightarrow> rat \<Rightarrow> rat \<Rightarrow> rat \<Rightarrow> rat \<Rightarrow> string \<Rightarrow> rat \<Rightarrow> canvas" where
  "dorect E doc x y w h color opacity =
     (let c = ColorLookup E color;
          c = c\<lparr>A := setop E opacity\<rparr>
      in emit (doc_CenterRect x y w h c) doc)"

definition doellipse ::
  "env \<Rightarrow> canvas \<Rightarrow> rat \<Rightarrow> rat \<Rightarrow> rat \<Rightarrow> rat \<Rightarrow> string \<Rightarrow> rat \<Rightarrow> canvas" where
  "doellipse E doc x y w h color opacity =
     (let c = ColorLookup E color;
          c = c\<lparr>A := setop E opacity\<rparr>
      in emit (doc_Ellipse x y (w / 2) (h / 2) c) doc)"

text \<open>The loop of \<^verbatim>\<open>dopoly\<close>: \<open>i\<close> runs over the indices of \<open>xs\<close>; a coordinate that does
  not parse is 0.\<close>

function dopoly_loop ::
  "env \<Rightarrow> string list \<Rightarrow> string list \<Rightarrow> nat \<Rightarrow> rat list \<Rightarrow> rat list \<Rightarrow> rat list \<times> rat list" where
  "dopoly_loop E xs ys i px py =
     (if i < length xs
      then (let px = (case ParseFloat E (xs ! i) 32 of None \<Rightarrow> px[i := 0] | Some x \<Rightarrow> px[i := x]);
                py = (case ParseFloat E (ys ! i) 32 of None \<Rightarrow> py[i := 0] | Some y \<Rightarrow> py[i := y])
            in dopoly_loop E xs ys (i + 1) px py)
      else (px, py))"
  by pat_completeness auto
termination
  by (relation "measure (\<lambda>(E, xs, ys, i, px, py). length xs - i)") auto

definition dopoly ::
  "env \<Rightarrow> canvas \<Rightarrow> string \<Rightarrow> string \<Rightarrow> rat \<Rightarrow> rat \<Rightarrow> string \<Rightarrow> rat \<Rightarrow> canvas" where
  "dopoly E doc xc yc cw ch color opacity =
     (let xs = Split xc (CHR '' '');
          ys = Split yc (CHR '' '')
      in if length xs \<noteq> length ys then doc
         else if length xs < 3 \<or> length ys < 3 then doc
         else (let (px, py) = dopoly_loop E xs ys 0 (replicate (length xs) 0)
                                 (replicate (length xs) 0);
                   c = ColorLookup E color;
                   c = c\<lparr>A := setop E opacity\<rparr>
               in emit (doc_Polygon px py c) doc))"

subsection \<open>Text and lists\<close>

definition textwrap ::
  "env \<Rightarrow> canvas \<Rightarrow> rat \<Rightarrow> rat \<Rightarrow> rat \<Rightarrow> rat \<Rightarrow> string \<Rightarrow> string \<Rightarrow> rat \<Rightarrow> canvas" where
  "textwrap E doc x y fs wp tdata color opacity =
     (let c = ColorLookup E color;
          c = c\<lparr>A := setop E opacity\<rparr>
      in emit (doc_TextWrap x y fs wp tdata c) doc)"

definition whitespace :: "char \<Rightarrow> bool" where
  "whitespace r = (r = CHR '' '' \<or> r = CHR 0x0A \<or> r = CHR 0x09)"

definition showtext ::
  "canvas \<Rightarrow> rat \<Rightarrow> rat \<Rightarrow> string \<Rightarrow> rat \<Rightarrow> NRGBA \<Rightarrow> string \<Rightarrow> string \<Rightarrow> canvas" where
  "showtext doc x y s fs color font align =
     (let doc = loadfont doc font fs in
      if align = ''center'' \<or> align = ''middle'' \<or> align = ''mid'' \<or> align = ''c''
      then emit (doc_TextMid x y fs s color) doc
      else if align = ''right'' \<or> align = ''end'' \<or> align = ''e''
      then emit (doc_TextEnd x y fs s color) doc
      else emit (doc_Text x y fs s color) doc)"

text \<open>The loop of \<^verbatim>\<open>dotext\<close> over the lines: \<open>y\<close> is the loop's variable.\<close>

fun dotext_lines ::
  "canvas \<Rightarrow> rat \<Rightarrow> rat \<Rightarrow> rat \<Rightarrow> string list \<Rightarrow> rat \<Rightarrow> NRGBA \<Rightarrow> string \<Rightarrow> string \<Rightarrow> canvas" where
  "dotext_lines doc x y ls [] fs c font align = doc"
| "dotext_lines doc x y ls (t # td) fs c font align =
     dotext_lines (showtext doc x y t fs c font align) x (y - ls) ls td fs c font align"

definition dotext ::
  "env \<Rightarrow> canvas \<Rightarrow> rat \<Rightarrow> rat \<Rightarrow> rat \<Rightarrow> rat \<Rightarrow> rat \<Rightarrow> rat \<Rightarrow> string \<Rightarrow> string \<Rightarrow> string \<Rightarrow> string \<Rightarrow>
   string \<Rightarrow> rat \<Rightarrow> canvas" where
  "dotext E doc x y fs wp rotation spacing tdata font align ttype color opacity =
     (let td = Split tdata (CHR 0x0A);
          c = ColorLookup E color;
          doc = (if rotation > 0 then emit (doc_Rotate x y (rotation * (math_Pi / 180))) doc
                 else doc);
          (font, doc) =
            (if ttype = ''code''
             then (let ch = of_nat (length td) * spacing * fs;
                       bx = x + (wp / 2);
                       by = (y - (ch / 2)) + (spacing * fs)
                   in (''mono'', dorect E doc bx by (wp + fs) (ch + fs) ''rgb(240,240,240)'' 100))
             else (font, doc));
          doc = (if ttype = ''block'' then textwrap E doc x y fs wp tdata color opacity
                 else (let ls = spacing * fs in dotext_lines doc x y ls td fs c font align))
      in if rotation > 0 then emit gc_EndTransform doc else doc)"

text \<open>\<^verbatim>\<open>fmt.Sprintf("%d", n)\<close> for a count.\<close>

fun Sprintf_d :: "nat \<Rightarrow> string" where
  "Sprintf_d n =
     (if n < 10 then [char_of (48 + n)] else Sprintf_d (n div 10) @ [char_of (48 + n mod 10)])"

text \<open>The loop of \<^verbatim>\<open>dolist\<close> over the items: \<open>i\<close>, \<open>y\<close> and the colour \<open>c\<close> are the
  loop's variables.\<close>

fun dolist_items ::
  "env \<Rightarrow> canvas \<Rightarrow> rat \<Rightarrow> rat \<Rightarrow> rat \<Rightarrow> rat \<Rightarrow> nat \<Rightarrow> NRGBA \<Rightarrow> ListItem list \<Rightarrow> string \<Rightarrow> string \<Rightarrow>
   string \<Rightarrow> canvas" where
  "dolist_items E doc x y fs ls i c [] font ltype align = doc"
| "dolist_items E doc x y fs ls i c (tl' # list) font ltype align =
     (let doc = loadfont doc font fs;
          c = (if length (ListItem.Color tl') > 0 then ColorLookup E (ListItem.Color tl') else c);
          doc =
            (if ltype = ''number''
             then showtext doc x y (Sprintf_d (i + 1) @ ''. '' @ ListText tl') fs c font align
             else if ltype = ''bullet''
             then (let doc = emit (doc_Circle x (y + fs / 3) (fs / 4) c) doc
                   in showtext doc (x + fs) y (ListText tl') fs c font align)
             else if ltype = ''center''
             then showtext doc x y (ListText tl') fs c font align
             else showtext doc x y (ListText tl') fs c font align)
      in dolist_items E doc x (y - ls) fs ls (i + 1) c list font ltype align)"

definition dolist ::
  "env \<Rightarrow> canvas \<Rightarrow> rat \<Rightarrow> rat \<Rightarrow> rat \<Rightarrow> rat \<Rightarrow> rat \<Rightarrow> rat \<Rightarrow> rat \<Rightarrow> ListItem list \<Rightarrow> string \<Rightarrow> string \<Rightarrow>
   string \<Rightarrow> string \<Rightarrow> rat \<Rightarrow> canvas" where
  "dolist E doc cw x y fs lwidth rotation spacing list font ltype align color opacity =
     (let font = (if font = [] then ''sans'' else font);
          doc = (if rotation > 0 then emit (doc_Rotate x y (rotation * (math_Pi / 180))) doc
                 else doc);
          c = ColorLookup E color;
          ls = listspacing * fs * (14 / 10);
          doc = dolist_items E doc x y fs ls 0 c list font ltype align
      in if rotation > 0 then emit gc_EndTransform doc else doc)"

subsection \<open>The slide\<close>

text \<open>\<^verbatim>\<open>imageInfo\<close>: \<open>(0, 0)\<close> when the file does not open or does not decode.\<close>

definition imageInfo :: "env \<Rightarrow> string \<Rightarrow> int \<times> int" where
  "imageInfo E s =
     (case ReadFile E s of
        Inl err \<Rightarrow> (0, 0)
      | Inr f \<Rightarrow> (case DecodeConfig E f of None \<Rightarrow> (0, 0) | Some (w, h) \<Rightarrow> (w, h)))"

definition defaultColor :: string where
  "defaultColor = ''rgb(127,127,127)''"

text \<open>The bodies of the loops of \<^verbatim>\<open>showslide\<close>, one per kind of element. Each works on
  its own copy of the element, as the \<^verbatim>\<open>range\<close> loops of the source do.\<close>

definition showslide_image :: "env \<Rightarrow> rat \<Rightarrow> rat \<Rightarrow> string \<Rightarrow> Image \<Rightarrow> canvas \<Rightarrow> canvas" where
  "showslide_image E cw ch fg im doc =
     (let (iw, ih) = (Image.Width im, Image.Height im);
          (iw, ih) =
            (if Image.Height im = 0 \<and> Image.Width im > 0
             then (let (nw, nh) = imageInfo E (Image.Name im) in
                   if nh > 0
                   then (let imscale = (of_int iw / 100) * cw;
                             fw = imscale;
                             fh = imscale / (of_int nw / of_int nh)
                         in (int_of_float E fw, int_of_float E fh))
                   else (iw, ih))
             else (iw, ih));
          doc = emit (doc_Image (Image.Name im) (Image.Xp im) (Image.Yp im) iw ih (Image.Scale im)) doc
      in if length (Image.Caption im) > 0
         then (let capsize = 15 / 10;
                   im = (if Image.Font im = [] then im\<lparr>Image.Font := ''sans''\<rparr> else im);
                   im = (if Image.Color im = [] then im\<lparr>Image.Color := fg\<rparr> else im);
                   im = (if Image.Align im = [] then im\<lparr>Image.Align := ''center''\<rparr> else im);
                   iw = of_int (Image.Width im) * (Image.Scale im / 100);
                   ih = of_int (Image.Height im) * (Image.Scale im / 100);
                   cimx = Image.Xp im;
                   cx = (if Image.Align im = ''center'' \<or> Image.Align im = ''c''
                            \<or> Image.Align im = ''mid''
                         then Image.Xp im
                         else if Image.Align im = ''end'' \<or> Image.Align im = ''e''
                            \<or> Image.Align im = ''right''
                         then cimx + pct (iw / 2) cw
                         else cimx - pct (iw / 2) cw);
                   cy = Image.Yp im - (ih / 2) / ch * 100 - (capsize * 2)
               in showtext doc cx cy (Image.Caption im) capsize (ColorLookup E (Image.Color im))
                    (Image.Font im) (Image.Align im))
         else doc)"

definition showslide_rect :: "env \<Rightarrow> rat \<Rightarrow> rat \<Rightarrow> Rect \<Rightarrow> canvas \<Rightarrow> canvas" where
  "showslide_rect E cw ch rect doc =
     (let rect = (if Rect.Color rect = [] then rect\<lparr>Rect.Color := defaultColor\<rparr> else rect) in
      if Rect.Hr rect = 100
      then (let c = ColorLookup E (Rect.Color rect);
                c = c\<lparr>A := setop E (Rect.Opacity rect)\<rparr>
            in emit (doc_CenterRect (Rect.Xp rect) (Rect.Yp rect) (Rect.Wp rect)
                       ((Rect.Wp rect) * (cw / ch)) c) doc)
      else dorect E doc (Rect.Xp rect) (Rect.Yp rect) (Rect.Wp rect) (Rect.Hp rect)
             (Rect.Color rect) (Rect.Opacity rect))"

definition showslide_ellipse :: "env \<Rightarrow> Ellipse \<Rightarrow> canvas \<Rightarrow> canvas" where
  "showslide_ellipse E ellipse doc =
     (let ellipse = (if Ellipse.Color ellipse = []
                     then ellipse\<lparr>Ellipse.Color := defaultColor\<rparr> else ellipse) in
      if Ellipse.Hr ellipse = 100
      then (let c = ColorLookup E (Ellipse.Color ellipse);
                c = c\<lparr>A := setop E (Ellipse.Opacity ellipse)\<rparr>
            in emit (doc_Circle (Ellipse.Xp ellipse) (Ellipse.Yp ellipse)
                       (Ellipse.Wp ellipse / 2) c) doc)
      else doellipse E doc (Ellipse.Xp ellipse) (Ellipse.Yp ellipse) (Ellipse.Wp ellipse)
             (Ellipse.Hp ellipse) (Ellipse.Color ellipse) (Ellipse.Opacity ellipse))"

definition showslide_curve :: "env \<Rightarrow> Curve \<Rightarrow> canvas \<Rightarrow> canvas" where
  "showslide_curve E curve doc =
     (let curve = (if Curve.Color curve = [] then curve\<lparr>Curve.Color := defaultColor\<rparr> else curve);
          curve = (if Curve.Sp curve = 0 then curve\<lparr>Curve.Sp := 2 / 10\<rparr> else curve)
      in docurve E doc (Curve.Xp1 curve) (Curve.Yp1 curve) (Curve.Xp2 curve) (Curve.Yp2 curve)
           (Curve.Xp3 curve) (Curve.Yp3 curve) (Curve.Sp curve) (Curve.Color curve)
           (Curve.Opacity curve))"

definition showslide_arc :: "env \<Rightarrow> Arc \<Rightarrow> canvas \<Rightarrow> canvas" where
  "showslide_arc E arc doc =
     (let arc = (if Arc.Color arc = [] then arc\<lparr>Arc.Color := defaultColor\<rparr> else arc);
          w = Arc.Wp arc;
          h = Arc.Hp arc;
          arc = (if Arc.Sp arc = 0 then arc\<lparr>Arc.Sp := 2 / 10\<rparr> else arc)
      in doarc E doc (Arc.Xp arc) (Arc.Yp arc) (w / 2) (h / 2) (Arc.A1 arc) (Arc.A2 arc)
           (Arc.Sp arc) (Arc.Color arc) (Arc.Opacity arc))"

definition showslide_line :: "env \<Rightarrow> Line \<Rightarrow> canvas \<Rightarrow> canvas" where
  "showslide_line E line doc =
     (let line = (if Line.Color line = [] then line\<lparr>Line.Color := defaultColor\<rparr> else line);
          line = (if Line.Sp line = 0 then line\<lparr>Line.Sp := 2 / 10\<rparr> else line)
      in doline E doc (Line.Xp1 line) (Line.Yp1 line) (Line.Xp2 line) (Line.Yp2 line)
           (Line.Sp line) (Line.Color line) (Line.Opacity line))"

definition showslide_polygon :: "env \<Rightarrow> rat \<Rightarrow> rat \<Rightarrow> Polygon \<Rightarrow> canvas \<Rightarrow> canvas" where
  "showslide_polygon E cw ch poly doc =
     (let poly = (if Polygon.Color poly = [] then poly\<lparr>Polygon.Color := defaultColor\<rparr> else poly)
      in dopoly E doc (Polygon.XC poly) (Polygon.YC poly) cw ch (Polygon.Color poly)
           (Polygon.Opacity poly))"

definition showslide_text :: "env \<Rightarrow> string \<Rightarrow> Text \<Rightarrow> world \<Rightarrow> world" where
  "showslide_text E fg t w =
     (let t = (if Text.Color t = [] then t\<lparr>Text.Color := fg\<rparr> else t);
          t = (if Text.Font t = [] then t\<lparr>Text.Font := ''sans''\<rparr> else t);
          (tdata, err) = (if Text.File t \<noteq> [] then includefile E (Text.File t)
                          else (Text.Tdata t, []));
          t = (if Text.Lp t = 0 then t\<lparr>Text.Lp := linespacing\<rparr> else t)
      in \<lparr>canvas_of =
            dotext E (canvas_of w) (Text.Xp t) (Text.Yp t) (Text.Sp t) (Text.Wp t)
              (Text.Rotation t) (Text.Lp t * (12 / 10)) tdata (Text.Font t) (Text.Align t)
              (Text.Type t) (Text.Color t) (Text.Opacity t),
          stderr = stderr w @ err\<rparr>)"

definition showslide_list :: "env \<Rightarrow> rat \<Rightarrow> string \<Rightarrow> List \<Rightarrow> canvas \<Rightarrow> canvas" where
  "showslide_list E cw fg l doc =
     (let l = (if List.Color l = [] then l\<lparr>List.Color := fg\<rparr> else l);
          l = (if List.Lp l = 0 then l\<lparr>List.Lp := listspacing\<rparr> else l);
          l = (if List.Wp l = 0 then l\<lparr>List.Wp := listwrap\<rparr> else l)
      in dolist E doc cw (List.Xp l) (List.Yp l) (List.Sp l) (List.Wp l) (List.Rotation l)
           (List.Lp l) (List.Li l) (List.Font l) (List.Type l) (List.Align l) (List.Color l)
           (List.Opacity l))"

definition on_canvas :: "(canvas \<Rightarrow> canvas) \<Rightarrow> world \<Rightarrow> world" where
  "on_canvas f w = w\<lparr>canvas_of := f (canvas_of w)\<rparr>"

definition showslide :: "env \<Rightarrow> world \<Rightarrow> Deck \<Rightarrow> int \<Rightarrow> world" where
  "showslide E doc d n =
     (if n < 0 \<or> n > int (length (Deck.Slide d)) - 1 then doc
      else (let cw = of_int (Canvas.Width (Deck.Canvas d));
                ch = of_int (Canvas.Height (Deck.Canvas d));
                slide = Deck.Slide d ! nat n;
                slide = (if Slide.Bg slide = [] then slide\<lparr>Slide.Bg := ''white''\<rparr> else slide);
                doc = on_canvas (emit (doc_Background (ColorLookup E (Slide.Bg slide)))) doc;
                slide = (if Slide.GradPercent slide \<le> 0 \<or> Slide.GradPercent slide > 100
                         then slide\<lparr>Slide.GradPercent := 100\<rparr> else slide);
                doc = (if length (Slide.Gradcolor1 slide) > 0 \<and> length (Slide.Gradcolor2 slide) > 0
                       then on_canvas (\<lambda>c. gradient c cw ch (Slide.Gradcolor1 slide)
                                             (Slide.Gradcolor2 slide) (Slide.GradPercent slide)) doc
                       else doc);
                slide = (if Slide.Fg slide = [] then slide\<lparr>Slide.Fg := ''black''\<rparr> else slide);
                doc = on_canvas (fold (showslide_image E cw ch (Slide.Fg slide)) (Slide.Image slide)) doc;
                doc = on_canvas (fold (showslide_rect E cw ch) (Slide.Rect slide)) doc;
                doc = on_canvas (fold (showslide_ellipse E) (Slide.Ellipse slide)) doc;
                doc = on_canvas (fold (showslide_curve E) (Slide.Curve slide)) doc;
                doc = on_canvas (fold (showslide_arc E) (Slide.Arc slide)) doc;
                doc = on_canvas (fold (showslide_line E) (Slide.Line slide)) doc;
                doc = on_canvas (fold (showslide_polygon E cw ch) (Slide.Polygon slide)) doc;
                doc = fold (showslide_text E (Slide.Fg slide)) (Slide.Text slide) doc
            in on_canvas (fold (showslide_list E cw (Slide.Fg slide)) (Slide.List slide)) doc))"

subsection \<open>Navigation\<close>

text \<open>The events of gio (packages key and pointer), as far as \<^verbatim>\<open>kbpointer\<close> reads them:
  a key event has a name, modifiers and a state; a pointer event has a type and buttons.
  The names of the special keys are the strings package key declares, in UTF-8.\<close>

datatype key_State = key_Press | key_Release

datatype pointer_Type =
    pointer_Cancel | pointer_Press | pointer_Release | pointer_Move
  | pointer_Drag | pointer_Enter | pointer_Leave | pointer_Scroll

datatype event =
    key_Event string "32 word" key_State
  | pointer_Event pointer_Type "8 word"
  | other_Event

definition key_ModCtrl :: "32 word" where "key_ModCtrl = 1"
definition key_ModShift :: "32 word" where "key_ModShift = 4"

definition pointer_ButtonPrimary :: "8 word" where "pointer_ButtonPrimary = 1"
definition pointer_ButtonSecondary :: "8 word" where "pointer_ButtonSecondary = 2"
definition pointer_ButtonTertiary :: "8 word" where "pointer_ButtonTertiary = 4"

definition key_NameLeftArrow :: string where
  "key_NameLeftArrow = [CHR 0xE2, CHR 0x86, CHR 0x90]"
definition key_NameUpArrow :: string where
  "key_NameUpArrow = [CHR 0xE2, CHR 0x86, CHR 0x91]"
definition key_NameRightArrow :: string where
  "key_NameRightArrow = [CHR 0xE2, CHR 0x86, CHR 0x92]"
definition key_NameDownArrow :: string where
  "key_NameDownArrow = [CHR 0xE2, CHR 0x86, CHR 0x93]"
definition key_NamePageUp :: string where
  "key_NamePageUp = [CHR 0xE2, CHR 0x87, CHR 0x9E]"
definition key_NamePageDown :: string where
  "key_NamePageDown = [CHR 0xE2, CHR 0x87, CHR 0x9F]"
definition key_NameEscape :: string where
  "key_NameEscape = [CHR 0xE2, CHR 0x8E, CHR 0x8B]"
definition key_NameSpace :: string where
  "key_NameSpace = ''Space''"

text \<open>The three literals of the source that are not ASCII: the home, end and return
  symbols (U+21F1, U+21F2, U+23CE).\<close>

definition lit_home :: string where
  "lit_home = [CHR 0xE2, CHR 0x87, CHR 0xB1]"
definition lit_end :: string where
  "lit_end = [CHR 0xE2, CHR 0x87, CHR 0xB2]"
definition lit_return :: string where
  "lit_return = [CHR 0xE2, CHR 0x8F, CHR 0x8E]"

text \<open>The three variables of the package.\<close>

record nav =
  pressed :: bool
  gridstate :: bool
  slidenumber :: int

text \<open>The body of the loop of \<^verbatim>\<open>kbpointer\<close>: one event. \<open>Inl 0\<close> is \<^verbatim>\<open>os.Exit(0)\<close>.\<close>

definition kbpointer_event :: "event \<Rightarrow> int \<Rightarrow> nav \<Rightarrow> int + nav" where
  "kbpointer_event ev ns st =
     (case ev of
        key_Event name modifiers state \<Rightarrow>
          (case state of
             key_Press \<Rightarrow>
               (if name = ''A'' \<or> name = ''1''
                then (if modifiers = 0 \<or> modifiers = key_ModCtrl
                      then Inr (st\<lparr>slidenumber := 0\<rparr>) else Inr st)
                else if name = ''E''
                then (if modifiers = 0 \<or> modifiers = key_ModCtrl
                      then Inr (st\<lparr>slidenumber := ns\<rparr>) else Inr st)
                else if name = ''B''
                then (if modifiers = 0 \<or> modifiers = key_ModCtrl
                      then Inr (st\<lparr>slidenumber := slidenumber st - 1\<rparr>) else Inr st)
                else if name = ''F''
                then (if modifiers = 0 \<or> modifiers = key_ModCtrl
                      then Inr (st\<lparr>slidenumber := slidenumber st + 1\<rparr>) else Inr st)
                else if name = ''P''
                then (if modifiers = 0 \<or> modifiers = key_ModCtrl
                      then Inr (st\<lparr>slidenumber := slidenumber st - 1\<rparr>) else Inr st)
                else if name = ''N''
                then (if modifiers = 0 \<or> modifiers = key_ModCtrl
                      then Inr (st\<lparr>slidenumber := slidenumber st + 1\<rparr>) else Inr st)
                else if name = ''^'' \<or> name = lit_home
                then Inr (st\<lparr>slidenumber := 0\<rparr>)
                else if name = ''$'' \<or> name = lit_end
                then Inr (st\<lparr>slidenumber := ns\<rparr>)
                else if name = ''G''
                then Inr (st\<lparr>gridstate := \<not> gridstate st\<rparr>)
                else if name = key_NameSpace \<or> name = lit_return
                then (if modifiers = 0
                      then Inr (st\<lparr>slidenumber := slidenumber st + 1\<rparr>)
                      else Inr (st\<lparr>slidenumber := slidenumber st - 1\<rparr>))
                else if name = key_NameRightArrow \<or> name = key_NamePageDown
                     \<or> name = key_NameDownArrow \<or> name = ''K''
                then Inr (st\<lparr>slidenumber := slidenumber st + 1\<rparr>)
                else if name = key_NameLeftArrow \<or> name = key_NamePageUp
                     \<or> name = key_NameUpArrow \<or> name = ''J''
                then Inr (st\<lparr>slidenumber := slidenumber st - 1\<rparr>)
                else if name = key_NameEscape \<or> name = ''Q''
                then Inl 0
                else Inr st)
           | key_Release \<Rightarrow> Inr st)
      | pointer_Event type' buttons \<Rightarrow>
          (case type' of
             pointer_Press \<Rightarrow>
               (let st = (if buttons = pointer_ButtonPrimary
                          then st\<lparr>slidenumber := slidenumber st + 1\<rparr>
                          else if buttons = pointer_ButtonSecondary
                          then st\<lparr>slidenumber := slidenumber st - 1\<rparr>
                          else if buttons = pointer_ButtonTertiary
                          then st\<lparr>slidenumber := 0\<rparr>
                          else st)
                in Inr (st\<lparr>pressed := True\<rparr>))
           | _ \<Rightarrow> Inr st)
      | other_Event \<Rightarrow> Inr st)"

fun kbpointer :: "event list \<Rightarrow> int \<Rightarrow> nav \<Rightarrow> int + nav" where
  "kbpointer [] ns st = Inr st"
| "kbpointer (ev # q) ns st =
     (case kbpointer_event ev ns st of
        Inl code \<Rightarrow> Inl code
      | Inr st \<Rightarrow> kbpointer q ns st)"

text \<open>\<^verbatim>\<open>slidedeck\<close>, before the loop: the number of the last slide and the first state.\<close>

definition slidedeck_init :: "Deck \<Rightarrow> int \<Rightarrow> int \<times> nav" where
  "slidedeck_init deck initpage =
     (let nslides = int (length (Deck.Slide deck)) - 1;
          initpage = (if initpage > nslides + 1 \<or> initpage < 1 then 1 else initpage)
      in (nslides, \<lparr>pressed = False, gridstate = False, slidenumber = initpage - 1\<rparr>))"

text \<open>\<^verbatim>\<open>slidedeck\<close>, on a frame event: the two tests on \<open>slidenumber\<close> before the slide is
  shown.\<close>

definition slidedeck_clamp :: "int \<Rightarrow> nav \<Rightarrow> nav" where
  "slidedeck_clamp nslides st =
     (let st = (if slidenumber st > nslides then st\<lparr>slidenumber := 0\<rparr> else st)
      in if slidenumber st < 0 then st\<lparr>slidenumber := nslides\<rparr> else st)"

subsection \<open>A sample environment\<close>

text \<open>An environment to evaluate the operations in: three colours, one image file of
  300 by 200 pixels, one signed fraction for \<^verbatim>\<open>ParseFloat\<close>, no number above U+00FF,
  an unrepresentable conversion to \<^verbatim>\<open>uint8\<close> that keeps the low eight bits and one to
  \<^verbatim>\<open>int\<close> that gives the least integer.\<close>

definition sample_env :: env where
  "sample_env =
     \<lparr>ColorLookup = (\<lambda>s. if s = ''red'' then \<lparr>R = 255, G = 0, B = 0, A = 255\<rparr>
                          else if s = ''black'' then \<lparr>R = 0, G = 0, B = 0, A = 255\<rparr>
                          else \<lparr>R = 128, G = 128, B = 128, A = 255\<rparr>),
      ReadFile = (\<lambda>s. if s = ''logo.png'' then Inr ''PNG 300 200''
                       else Inl ''open: no such file or directory''),
      DecodeConfig = (\<lambda>f. if f = ''PNG 300 200'' then Some (300, 200) else None),
      ParseFloat_other = (\<lambda>s bitSize. if s = ''-1.5'' then Some (- 3 / 2) else None),
      IsNumber_table = (\<lambda>r. False),
      uint8_unrepresentable = (\<lambda>x. word_of_int (trunc x)),
      int_unrepresentable = (\<lambda>x. - (2 ^ 63))\<rparr>"

text \<open>A deck of one slide on a canvas of 1000 by 500: an image whose file is missing, an
  image whose file decodes, a rectangle and an ellipse with \<open>Hr = 100\<close>, a triangle, a
  text of two lines and a list of two items, the first of them red.\<close>

definition sample_missing :: Image where
  "sample_missing =
     \<lparr>Image.Name = ''gone.png'', Image.Xp = 25, Image.Yp = 50, Image.Width = 30,
      Image.Height = 0, Image.Scale = 100, Image.Caption = [], Image.Font = [],
      Image.Color = [], Image.Align = []\<rparr>"

definition sample_logo :: Image where
  "sample_logo =
     \<lparr>Image.Name = ''logo.png'', Image.Xp = 75, Image.Yp = 50, Image.Width = 30,
      Image.Height = 0, Image.Scale = 100, Image.Caption = [], Image.Font = [],
      Image.Color = [], Image.Align = []\<rparr>"

definition sample_rect :: Rect where
  "sample_rect =
     \<lparr>Rect.Xp = 50, Rect.Yp = 50, Rect.Wp = 20, Rect.Hp = 7, Rect.Hr = 100,
      Rect.Color = [], Rect.Opacity = 0\<rparr>"

definition sample_ellipse :: Ellipse where
  "sample_ellipse =
     \<lparr>Ellipse.Xp = 50, Ellipse.Yp = 50, Ellipse.Wp = 20, Ellipse.Hp = 7, Ellipse.Hr = 100,
      Ellipse.Color = [], Ellipse.Opacity = 0\<rparr>"

definition sample_polygon :: Polygon where
  "sample_polygon =
     \<lparr>Polygon.XC = ''10 20 x'', Polygon.YC = ''10 -1.5 30'', Polygon.Color = [],
      Polygon.Opacity = 0\<rparr>"

definition sample_text :: Text where
  "sample_text =
     \<lparr>Text.Xp = 10, Text.Yp = 50, Text.Sp = 10, Text.Wp = 0, Text.Rotation = 0, Text.Lp = 5,
      Text.Tdata = [CHR ''a'', CHR 0x0A, CHR ''b''], Text.File = [], Text.Font = [],
      Text.Align = [], Text.Type = [], Text.Color = [], Text.Opacity = 0\<rparr>"

definition sample_list :: List where
  "sample_list =
     \<lparr>List.Xp = 10, List.Yp = 80, List.Sp = 5, List.Wp = 0, List.Rotation = 0, List.Lp = 0,
      List.Li = [\<lparr>ListItem.Color = ''red'', ListText = ''a''\<rparr>,
                 \<lparr>ListItem.Color = [], ListText = ''b''\<rparr>],
      List.Font = [], List.Type = [], List.Align = [], List.Color = ''black'',
      List.Opacity = 0\<rparr>"

definition sample_slide :: Slide where
  "sample_slide =
     \<lparr>Slide.Bg = [], Slide.Fg = [], Slide.Gradcolor1 = [], Slide.Gradcolor2 = [],
      Slide.GradPercent = 0, Slide.Image = [sample_missing, sample_logo],
      Slide.Rect = [sample_rect], Slide.Ellipse = [sample_ellipse], Slide.Curve = [],
      Slide.Arc = [], Slide.Line = [], Slide.Polygon = [sample_polygon],
      Slide.Text = [sample_text], Slide.List = [sample_list]\<rparr>"

definition sample_deck :: Deck where
  "sample_deck =
     \<lparr>Deck.Canvas = \<lparr>Canvas.Width = 1000, Canvas.Height = 500\<rparr>,
      Deck.Slide = [sample_slide]\<rparr>"

definition empty_world :: world where
  "empty_world = \<lparr>canvas_of = [], stderr = []\<rparr>"

definition empty_deck :: Deck where
  "empty_deck = \<lparr>Deck.Canvas = \<lparr>Canvas.Width = 792, Canvas.Height = 612\<rparr>, Deck.Slide = []\<rparr>"

subsection \<open>The events that navigate\<close>

text \<open>The cases of the switch of \<^verbatim>\<open>kbpointer\<close>, by what they do to \<open>slidenumber\<close>:
  the events that add 1, the events that subtract 1 and the events that set it to the
  last slide. \<open>m\<close> is any value of the modifiers, for the keys whose case does not look
  at them.\<close>

definition forward_events :: "32 word \<Rightarrow> event list" where
  "forward_events m =
     [key_Event ''F'' 0 key_Press, key_Event ''F'' key_ModCtrl key_Press,
      key_Event ''N'' 0 key_Press, key_Event ''N'' key_ModCtrl key_Press,
      key_Event key_NameSpace 0 key_Press, key_Event lit_return 0 key_Press,
      key_Event key_NameRightArrow m key_Press, key_Event key_NamePageDown m key_Press,
      key_Event key_NameDownArrow m key_Press, key_Event ''K'' m key_Press,
      pointer_Event pointer_Press pointer_ButtonPrimary]"

definition backward_events :: "32 word \<Rightarrow> event list" where
  "backward_events m =
     [key_Event ''B'' 0 key_Press, key_Event ''B'' key_ModCtrl key_Press,
      key_Event ''P'' 0 key_Press, key_Event ''P'' key_ModCtrl key_Press,
      key_Event key_NameSpace key_ModShift key_Press,
      key_Event lit_return key_ModShift key_Press,
      key_Event key_NameLeftArrow m key_Press, key_Event key_NamePageUp m key_Press,
      key_Event key_NameUpArrow m key_Press, key_Event ''J'' m key_Press,
      pointer_Event pointer_Press pointer_ButtonSecondary]"

definition last_events :: "32 word \<Rightarrow> event list" where
  "last_events m =
     [key_Event ''E'' 0 key_Press, key_Event ''E'' key_ModCtrl key_Press,
      key_Event ''$'' m key_Press, key_Event lit_end m key_Press]"

definition five_slides :: Deck where
  "five_slides =
     \<lparr>Deck.Canvas = \<lparr>Canvas.Width = 792, Canvas.Height = 612\<rparr>,
      Deck.Slide = replicate 5 sample_slide\<rparr>"

section \<open>Properties\<close>

subsection \<open>Opacity\<close>


lemma floor_rat_numeral_div [simp]:
  "\<lfloor>numeral a / numeral b :: rat\<rfloor> = numeral a div numeral b"
  by (metis floor_divide_of_int_eq of_int_numeral)





lemma setop_is_uint8: "uint (setop E v) < 256"
  using uint_bounded [of "setop E v"] by simp




subsection \<open>Page sizes\<close>









lemmas pagedim_eval =
  pagedim_def setpagesize_def FieldsFunc_def IsNumber_def runes_def ParseFloat_runes_def
  ParseFloat_def isdigit_def decimal_def MaxFloat_def pagemap_get_def pagemap_def

lemma pagedim_Letter: "pagedim E (runes ''Letter'') = (792, 612)"
  by (simp add: pagedim_eval)

lemma pagedim_not_zero:
  "setpagesize E s \<noteq> (0, 0) \<Longrightarrow> pagedim E s = setpagesize E s"
  by (auto simp: pagedim_def split: prod.splits)

lemma pagedim_zero:
  "setpagesize E s = (0, 0) \<Longrightarrow>
   pagedim E s = (case map_of pagemap s of
                    Some p \<Rightarrow> (width p * unit p, height p * unit p)
                  | None \<Rightarrow> (792, 612))"
  by (simp add: pagedim_def pagemap_get_def runes_def pagemap_def split: option.splits)




text \<open>
  C10. A literal is taken as it is when one of its two fields is 0: \<open>0x792\<close> gives
  \<open>(0, 792)\<close>, a canvas of width 0. The presets are looked up only when the pair parsed
  is \<open>(0, 0)\<close>; so \<open>0x0\<close> gives what \<open>Letter\<close> gives.
\<close>

theorem pagedim_zero_field:
  "pagedim E (runes ''0x792'') = (0, 792) \<and>
   pagedim E (runes ''0x0'') = pagedim E (runes ''Letter'') \<and>
   (setpagesize E s \<noteq> (0, 0) \<longrightarrow> pagedim E s = setpagesize E s) \<and>
   (setpagesize E s = (0, 0) \<longrightarrow>
      pagedim E s = (case map_of pagemap s of
                       Some p \<Rightarrow> (width p * unit p, height p * unit p)
                     | None \<Rightarrow> pagedim E (runes ''Letter'')))"
proof -
  have a: "pagedim E (runes ''0x792'') = (0, 792)" by (simp add: pagedim_eval)
  have b: "pagedim E (runes ''0x0'') = pagedim E (runes ''Letter'')" by (simp add: pagedim_eval)
  show ?thesis using a b pagedim_not_zero [of E s] pagedim_zero [of E s]
    by (auto simp: pagedim_Letter split: option.splits)
qed

theorem pagedim_zero_field_witness:
  "setpagesize sample_env (runes ''792x0'') \<noteq> (0, 0) \<and>
   pagedim sample_env (runes ''792x0'') = (792, 0) \<and>
   setpagesize sample_env (runes ''A4'') = (0, 0) \<and>
   pagedim sample_env (runes ''A4'') = (297 * mm2pt, 210 * mm2pt)"
proof -
  have h1: "setpagesize sample_env (runes ''792x0'') = (792, 0)" by (simp add: pagedim_eval)
  have h2: "setpagesize sample_env (runes ''A4'') = (0, 0)" by (simp add: pagedim_eval)
  have m: "map_of pagemap (runes ''A4'') = Some \<lparr>width = 297, height = 210, unit = mm2pt\<rparr>"
    by (simp add: pagemap_def runes_def)
  from pagedim_zero_field [of sample_env "runes ''792x0''"] h1
  have 1: "pagedim sample_env (runes ''792x0'') = (792, 0)" by simp
  from pagedim_zero_field [of sample_env "runes ''A4''"] h2 m
  have 2: "pagedim sample_env (runes ''A4'') = (297 * mm2pt, 210 * mm2pt)" by simp
  show ?thesis using h1 h2 1 2 by simp
qed

subsection \<open>Every operation appends its calls to the canvas\<close>

lemma emit_append: "emit c doc = doc @ [c]"
  by (simp add: emit_def)

lemma showtext_append:
  "showtext doc x y s fs color font align = doc @ showtext [] x y s fs color font align"
  by (simp add: showtext_def loadfont_def emit_def)

lemma showtext_one: "\<exists>c. showtext [] x y s fs color font align = [c]"
  by (simp add: showtext_def loadfont_def emit_def)

lemma dorect_append: "dorect E doc x y w h color opacity = doc @ dorect E [] x y w h color opacity"
  by (simp add: dorect_def emit_def Let_def)

lemma textwrap_append:
  "textwrap E doc x y fs wp tdata color opacity = doc @ textwrap E [] x y fs wp tdata color opacity"
  by (simp add: textwrap_def emit_def Let_def)

lemma dotext_lines_append:
  "dotext_lines doc x y ls td fs c font align = doc @ dotext_lines [] x y ls td fs c font align"
proof (induction td arbitrary: doc y)
  case Nil
  then show ?case by simp
next
  case (Cons t td)
  have "dotext_lines doc x y ls (t # td) fs c font align
        = showtext doc x y t fs c font align @ dotext_lines [] x (y - ls) ls td fs c font align"
    using Cons.IH [of "showtext doc x y t fs c font align" "y - ls"] by simp
  also have "\<dots> = doc @ showtext [] x y t fs c font align
                    @ dotext_lines [] x (y - ls) ls td fs c font align"
    using showtext_append [of doc x y t fs c font align] by simp
  also have "\<dots> = doc @ dotext_lines [] x y ls (t # td) fs c font align"
    using Cons.IH [of "showtext [] x y t fs c font align" "y - ls"] by simp
  finally show ?case .
qed

text \<open>The lines of a text, in closed form: line \<open>k\<close> is drawn \<open>k * ls\<close> below the first.\<close>

lemma dotext_lines_closed:
  "dotext_lines [] x y ls td fs c font align
   = concat (map (\<lambda>(k, t). showtext [] x (y - of_nat k * ls) t fs c font align)
               (zip [0..<length td] td))"
proof (induction td arbitrary: y)
  case Nil
  then show ?case by simp
next
  case (Cons t td)
  have z: "zip [0..<length (t # td)] (t # td)
           = (0, t) # map (\<lambda>(k, u). (Suc k, u)) (zip [0..<length td] td)"
  proof -
    have "[0..<length (t # td)] = 0 # map Suc [0..<length td]"
      by (simp add: upt_conv_Cons map_Suc_upt del: upt_Suc)
    then show ?thesis by (simp add: zip_map1)
  qed
  have step: "dotext_lines [] x y ls (t # td) fs c font align
              = showtext [] x y t fs c font align
                @ dotext_lines [] x (y - ls) ls td fs c font align"
    using dotext_lines_append [of "showtext [] x y t fs c font align" x "y - ls" ls td fs c font align]
    by simp
  have shift: "\<And>k. y - ls - of_nat k * ls = y - of_nat (Suc k) * ls"
    by (simp add: algebra_simps)
  show ?case
    unfolding step Cons.IH z
    by (simp add: comp_def case_prod_unfold shift)
qed

lemma dorect_eq:
  "dorect E doc x y w h color opacity
   = doc @ [doc_CenterRect x y w h ((ColorLookup E color)\<lparr>A := setop E opacity\<rparr>)]"
  by (simp add: dorect_def emit_def Let_def)

lemma textwrap_eq:
  "textwrap E doc x y fs wp tdata color opacity
   = doc @ [doc_TextWrap x y fs wp tdata ((ColorLookup E color)\<lparr>A := setop E opacity\<rparr>)]"
  by (simp add: textwrap_def emit_def Let_def)

lemma dotext_lines_append_ne:
  "doc \<noteq> [] \<Longrightarrow>
   dotext_lines doc x y ls td fs c font align = doc @ dotext_lines [] x y ls td fs c font align"
  by (rule dotext_lines_append)

lemma dotext_append:
  "dotext E doc x y fs wp rotation spacing tdata font align ttype color opacity
   = doc @ dotext E [] x y fs wp rotation spacing tdata font align ttype color opacity"
proof (cases "doc = []")
  case True
  then show ?thesis by simp
next
  case False
  then show ?thesis
    unfolding dotext_def Let_def
    by (simp add: dorect_eq textwrap_eq emit_def dotext_lines_append_ne)
qed

lemma dolist_items_append:
  "dolist_items E doc x y fs ls i c list font ltype align
   = doc @ dolist_items E [] x y fs ls i c list font ltype align"
proof (induction list arbitrary: doc y i c)
  case Nil
  then show ?case by simp
next
  case (Cons it list)
  let ?c = "if length (ListItem.Color it) > 0 then ColorLookup E (ListItem.Color it) else c"
  let ?step = "\<lambda>doc.
       (if ltype = ''number''
        then showtext doc x y (Sprintf_d (i + 1) @ ''. '' @ ListText it) fs ?c font align
        else if ltype = ''bullet''
        then showtext (emit (doc_Circle x (y + fs / 3) (fs / 4) ?c) doc) (x + fs) y
               (ListText it) fs ?c font align
        else showtext doc x y (ListText it) fs ?c font align)"
  have s: "?step doc = doc @ ?step []"
    using showtext_append [of doc] showtext_append [of "doc @ [doc_Circle x (y + fs / 3) (fs / 4) ?c]"]
      showtext_append [of "[doc_Circle x (y + fs / 3) (fs / 4) ?c]"]
    by (simp add: emit_def)
  have u: "dolist_items E d x y fs ls i c (it # list) font ltype align
           = dolist_items E (?step d) x (y - ls) fs ls (i + 1) ?c list font ltype align" for d
    by (simp add: Let_def loadfont_def)
  have "dolist_items E doc x y fs ls i c (it # list) font ltype align
        = ?step doc @ dolist_items E [] x (y - ls) fs ls (i + 1) ?c list font ltype align"
    unfolding u using Cons.IH [of "?step doc"] by simp
  also have "\<dots> = doc @ ?step [] @ dolist_items E [] x (y - ls) fs ls (i + 1) ?c list font ltype align"
    by (subst s) simp
  also have "\<dots> = doc @ dolist_items E [] x y fs ls i c (it # list) font ltype align"
    unfolding u using Cons.IH [of "?step []"] by simp
  finally show ?case .
qed

lemma dolist_items_append_ne:
  "doc \<noteq> [] \<Longrightarrow>
   dolist_items E doc x y fs ls i c list font ltype align
   = doc @ dolist_items E [] x y fs ls i c list font ltype align"
  by (rule dolist_items_append)

lemma dolist_append:
  "dolist E doc cw x y fs lwidth rotation spacing list font ltype align color opacity
   = doc @ dolist E [] cw x y fs lwidth rotation spacing list font ltype align color opacity"
proof (cases "doc = []")
  case True
  then show ?thesis by simp
next
  case False
  then show ?thesis
    unfolding dolist_def Let_def
    by (simp add: emit_def dolist_items_append_ne)
qed

lemma fold_append:
  assumes "\<And>x doc. f x doc = doc @ f x []"
  shows "fold f xs doc = doc @ concat (map (\<lambda>x. f x []) xs)"
proof (induction xs arbitrary: doc)
  case Nil
  then show ?case by simp
next
  case (Cons x xs)
  have "fold f (x # xs) doc = fold f xs (f x doc)" by simp
  also have "\<dots> = f x doc @ concat (map (\<lambda>x. f x []) xs)" by (rule Cons.IH)
  also have "\<dots> = doc @ f x [] @ concat (map (\<lambda>x. f x []) xs)"
    using assms [of x doc] by simp
  finally show ?case by simp
qed

subsection \<open>The calls of a slide\<close>

lemma showtext_append_ne:
  "doc \<noteq> [] \<Longrightarrow>
   showtext doc x y s fs color font align = doc @ showtext [] x y s fs color font align"
  by (rule showtext_append)

lemma showslide_image_shape:
  "\<exists>iw ih cx cy cap col font al.
     \<forall>doc. showslide_image E cw ch fg im doc
       = (let doc = emit (doc_Image (Image.Name im) (Image.Xp im) (Image.Yp im) iw ih
                            (Image.Scale im)) doc
          in if length (Image.Caption im) > 0
             then showtext doc cx cy cap (15 / 10) col font al
             else doc)"
  unfolding showslide_image_def Let_def case_prod_unfold
  by (intro exI allI) (rule refl)

lemma showslide_image_append:
  "showslide_image E cw ch fg im doc = doc @ showslide_image E cw ch fg im []"
proof -
  obtain iw ih cx cy cap col font al where
    s: "\<And>doc. showslide_image E cw ch fg im doc
       = (let doc = emit (doc_Image (Image.Name im) (Image.Xp im) (Image.Yp im) iw ih
                            (Image.Scale im)) doc
          in if length (Image.Caption im) > 0
             then showtext doc cx cy cap (15 / 10) col font al
             else doc)"
    using showslide_image_shape [of E cw ch fg im] by blast
  show ?thesis
    unfolding s by (simp add: Let_def emit_def showtext_append_ne)
qed

lemma showslide_rect_append:
  "showslide_rect E cw ch rect doc = doc @ showslide_rect E cw ch rect []"
  unfolding showslide_rect_def Let_def
  by (simp add: emit_def dorect_eq)

lemma showslide_ellipse_append:
  "showslide_ellipse E ellipse doc = doc @ showslide_ellipse E ellipse []"
  unfolding showslide_ellipse_def Let_def
  by (simp add: emit_def doellipse_def)

lemma showslide_curve_append:
  "showslide_curve E curve doc = doc @ showslide_curve E curve []"
  unfolding showslide_curve_def Let_def
  by (simp add: emit_def docurve_def)

lemma showslide_arc_append:
  "showslide_arc E arc doc = doc @ showslide_arc E arc []"
  unfolding showslide_arc_def Let_def
  by (simp add: emit_def doarc_def)

lemma showslide_line_append:
  "showslide_line E line doc = doc @ showslide_line E line []"
  unfolding showslide_line_def Let_def
  by (simp add: emit_def doline_def)

lemma dopoly_append:
  "dopoly E doc xc yc cw ch color opacity = doc @ dopoly E [] xc yc cw ch color opacity"
  unfolding dopoly_def Let_def
  by (simp add: emit_def split: prod.splits)

lemma showslide_polygon_append:
  "showslide_polygon E cw ch poly doc = doc @ showslide_polygon E cw ch poly []"
  unfolding showslide_polygon_def Let_def
  using dopoly_append [of E doc] by simp

lemma showslide_list_append:
  "showslide_list E cw fg l doc = doc @ showslide_list E cw fg l []"
  unfolding showslide_list_def Let_def
  using dolist_append [of E doc] by simp

lemma showslide_text_canvas:
  "canvas_of (showslide_text E fg t w)
   = canvas_of w @ canvas_of (showslide_text E fg t \<lparr>canvas_of = [], stderr = []\<rparr>)"
  unfolding showslide_text_def Let_def
  using dotext_append [of E "canvas_of w"]
  by (simp split: prod.splits)

lemma fold_showslide_text_canvas:
  "canvas_of (fold (showslide_text E fg) ts w)
   = canvas_of w
     @ concat (map (\<lambda>t. canvas_of (showslide_text E fg t \<lparr>canvas_of = [], stderr = []\<rparr>)) ts)"
proof (induction ts arbitrary: w)
  case Nil
  then show ?case by simp
next
  case (Cons t ts)
  show ?case
    using Cons.IH [of "showslide_text E fg t w"] showslide_text_canvas [of E fg t w]
    by simp
qed

text \<open>The canvas after \<^verbatim>\<open>showslide\<close>, for a slide of the deck: the background, then the
  calls of every image, rectangle, ellipse, curve, arc, line, polygon, text and list of
  the slide, each kind in the order of the deck.\<close>

lemma showslide_canvas:
  assumes "0 \<le> n" "n \<le> int (length (Deck.Slide d)) - 1"
  shows "canvas_of (showslide E w d n) =
    (let s = Deck.Slide d ! nat n;
         cw = of_int (Canvas.Width (Deck.Canvas d));
         ch = of_int (Canvas.Height (Deck.Canvas d));
         bg = (if Slide.Bg s = [] then ''white'' else Slide.Bg s);
         fg = (if Slide.Fg s = [] then ''black'' else Slide.Fg s)
     in canvas_of w @ [doc_Background (ColorLookup E bg)]
        @ concat (map (\<lambda>x. showslide_image E cw ch fg x []) (Slide.Image s))
        @ concat (map (\<lambda>x. showslide_rect E cw ch x []) (Slide.Rect s))
        @ concat (map (\<lambda>x. showslide_ellipse E x []) (Slide.Ellipse s))
        @ concat (map (\<lambda>x. showslide_curve E x []) (Slide.Curve s))
        @ concat (map (\<lambda>x. showslide_arc E x []) (Slide.Arc s))
        @ concat (map (\<lambda>x. showslide_line E x []) (Slide.Line s))
        @ concat (map (\<lambda>x. showslide_polygon E cw ch x []) (Slide.Polygon s))
        @ concat (map (\<lambda>x. canvas_of (showslide_text E fg x \<lparr>canvas_of = [], stderr = []\<rparr>))
                    (Slide.Text s))
        @ concat (map (\<lambda>x. showslide_list E cw fg x []) (Slide.List s)))"
proof -
  have r: "\<not> (n < 0 \<or> n > int (length (Deck.Slide d)) - 1)" using assms by simp
  note f = fold_append [of "showslide_image E _ _ _", OF showslide_image_append]
    fold_append [of "showslide_rect E _ _", OF showslide_rect_append]
    fold_append [of "showslide_ellipse E", OF showslide_ellipse_append]
    fold_append [of "showslide_curve E", OF showslide_curve_append]
    fold_append [of "showslide_arc E", OF showslide_arc_append]
    fold_append [of "showslide_line E", OF showslide_line_append]
    fold_append [of "showslide_polygon E _ _", OF showslide_polygon_append]
    fold_append [of "showslide_list E _ _", OF showslide_list_append]
  show ?thesis
    unfolding showslide_def Let_def
    by (simp only: r if_False)
       (simp add: on_canvas_def gradient_def emit_def f fold_showslide_text_canvas)
qed

subsection \<open>The sample slide\<close>






lemma sample_text_calls:
  "canvas_of (showslide_text sample_env ''black'' sample_text \<lparr>canvas_of = [], stderr = []\<rparr>)
   = [doc_Text 10 50 10 ''a'' \<lparr>R = 0, G = 0, B = 0, A = 255\<rparr>,
      doc_Text 10 (- 10) 10 ''b'' \<lparr>R = 0, G = 0, B = 0, A = 255\<rparr>]"
  by (simp add: showslide_text_def sample_text_def sample_env_def emit_def dotext_def Split_def
      showtext_def loadfont_def)



subsection \<open>An index outside the deck\<close>

text \<open>
  C9. For every deck and every index \<open>n\<close> with \<open>n < 0\<close> or \<open>n > slideCount - 1\<close>,
  \<^verbatim>\<open>showslide\<close> returns at once: no call is made on the canvas, nothing is written to
  standard error, and the world is the one it was given.
\<close>

theorem showslide_out_of_range:
  "n < 0 \<or> n > int (length (Deck.Slide d)) - 1 \<Longrightarrow> showslide E doc d n = doc"
  by (simp add: showslide_def)

theorem showslide_out_of_range_witness:
  "showslide sample_env empty_world sample_deck 1 = empty_world \<and>
   showslide sample_env empty_world sample_deck (- 1) = empty_world \<and>
   showslide sample_env empty_world empty_deck 0 = empty_world"
proof -
  have a: "(1 :: int) < 0 \<or> 1 > int (length (Deck.Slide sample_deck)) - 1"
    by (simp add: sample_deck_def)
  have b: "(- 1 :: int) < 0 \<or> - 1 > int (length (Deck.Slide sample_deck)) - 1"
    by simp
  have c: "(0 :: int) < 0 \<or> 0 > int (length (Deck.Slide empty_deck)) - 1"
    by (simp add: empty_deck_def)
  show ?thesis
    using showslide_out_of_range [OF a, of sample_env empty_world]
      showslide_out_of_range [OF b, of sample_env empty_world]
      showslide_out_of_range [OF c, of sample_env empty_world]
    by simp
qed

subsection \<open>Rectangles and ellipses with Hr = 100\<close>

lemma showslide_rect_Hr:
  "Rect.Hr rect = 100 \<Longrightarrow>
   showslide_rect E cw ch rect doc
   = doc @ [doc_CenterRect (Rect.Xp rect) (Rect.Yp rect) (Rect.Wp rect)
              (Rect.Wp rect * (cw / ch))
              ((ColorLookup E (if Rect.Color rect = [] then defaultColor else Rect.Color rect))
                 \<lparr>A := setop E (Rect.Opacity rect)\<rparr>)]"
  by (simp add: showslide_rect_def emit_def Let_def)

lemma showslide_ellipse_Hr:
  "Ellipse.Hr ellipse = 100 \<Longrightarrow>
   showslide_ellipse E ellipse doc
   = doc @ [doc_Circle (Ellipse.Xp ellipse) (Ellipse.Yp ellipse) (Ellipse.Wp ellipse / 2)
              ((ColorLookup E (if Ellipse.Color ellipse = [] then defaultColor
                               else Ellipse.Color ellipse))
                 \<lparr>A := setop E (Ellipse.Opacity ellipse)\<rparr>)]"
  by (simp add: showslide_ellipse_def emit_def Let_def)

lemma in_concat_map: "x \<in> set xs \<Longrightarrow> set (f x) \<subseteq> set (concat (map f xs))"
  by auto

lemma showslide_has_rect:
  assumes "0 \<le> n" "n \<le> int (length (Deck.Slide d)) - 1"
    and "rect \<in> set (Slide.Rect (Deck.Slide d ! nat n))"
  shows "set (showslide_rect E (of_int (Canvas.Width (Deck.Canvas d)))
                (of_int (Canvas.Height (Deck.Canvas d))) rect [])
         \<subseteq> set (canvas_of (showslide E w d n))"
  unfolding showslide_canvas [OF assms(1,2)] Let_def
  using in_concat_map [OF assms(3),
      of "\<lambda>x. showslide_rect E (of_int (Canvas.Width (Deck.Canvas d)))
                 (of_int (Canvas.Height (Deck.Canvas d))) x []"]
  by auto

lemma showslide_has_ellipse:
  assumes "0 \<le> n" "n \<le> int (length (Deck.Slide d)) - 1"
    and "ellipse \<in> set (Slide.Ellipse (Deck.Slide d ! nat n))"
  shows "set (showslide_ellipse E ellipse []) \<subseteq> set (canvas_of (showslide E w d n))"
  unfolding showslide_canvas [OF assms(1,2)] Let_def
  using in_concat_map [OF assms(3), of "\<lambda>x. showslide_ellipse E x []"]
  by auto

text \<open>
  C4. For every rectangle with \<open>Hr = 100\<close> (on a canvas whose height is not 0) the one
  call made is a rectangle of width \<open>Wp\<close> and height \<open>Wp * (canvasWidth / canvasHeight)\<close>,
  whatever \<open>Hp\<close> is: on a canvas of 1000 by 500, \<open>Wp = 20\<close> gives the height 40. For
  every ellipse with \<open>Hr = 100\<close> the one call made is a circle of radius \<open>Wp / 2\<close>. Both
  calls are on the canvas after \<^verbatim>\<open>showslide\<close>, for every such element of the slide shown.
\<close>

theorem Hr_100_height_from_width:
  "(Rect.Hr rect = 100 \<and> ch \<noteq> 0 \<longrightarrow>
      showslide_rect E cw ch rect doc
      = doc @ [doc_CenterRect (Rect.Xp rect) (Rect.Yp rect) (Rect.Wp rect)
                 (Rect.Wp rect * (cw / ch))
                 ((ColorLookup E (if Rect.Color rect = [] then defaultColor else Rect.Color rect))
                    \<lparr>A := setop E (Rect.Opacity rect)\<rparr>)]) \<and>
   (Rect.Hr rect = 100 \<and> Rect.Wp rect = 20 \<longrightarrow>
      (\<exists>c. showslide_rect E 1000 500 rect doc
            = doc @ [doc_CenterRect (Rect.Xp rect) (Rect.Yp rect) 20 40 c])) \<and>
   (Ellipse.Hr ellipse = 100 \<longrightarrow>
      showslide_ellipse E ellipse doc
      = doc @ [doc_Circle (Ellipse.Xp ellipse) (Ellipse.Yp ellipse) (Ellipse.Wp ellipse / 2)
                 ((ColorLookup E (if Ellipse.Color ellipse = [] then defaultColor
                                  else Ellipse.Color ellipse))
                    \<lparr>A := setop E (Ellipse.Opacity ellipse)\<rparr>)]) \<and>
   (0 \<le> n \<and> n \<le> int (length (Deck.Slide d)) - 1 \<and> Canvas.Height (Deck.Canvas d) \<noteq> 0 \<and>
    rect \<in> set (Slide.Rect (Deck.Slide d ! nat n)) \<and> Rect.Hr rect = 100 \<longrightarrow>
      (\<exists>c. doc_CenterRect (Rect.Xp rect) (Rect.Yp rect) (Rect.Wp rect)
              (Rect.Wp rect * (of_int (Canvas.Width (Deck.Canvas d))
                               / of_int (Canvas.Height (Deck.Canvas d)))) c
            \<in> set (canvas_of (showslide E w d n)))) \<and>
   (0 \<le> n \<and> n \<le> int (length (Deck.Slide d)) - 1 \<and>
    ellipse \<in> set (Slide.Ellipse (Deck.Slide d ! nat n)) \<and> Ellipse.Hr ellipse = 100 \<longrightarrow>
      (\<exists>c. doc_Circle (Ellipse.Xp ellipse) (Ellipse.Yp ellipse) (Ellipse.Wp ellipse / 2) c
            \<in> set (canvas_of (showslide E w d n))))"
proof -
  have a: "showslide_rect E 1000 500 rect doc
           = doc @ [doc_CenterRect (Rect.Xp rect) (Rect.Yp rect) 20 40
                      ((ColorLookup E (if Rect.Color rect = [] then defaultColor
                                       else Rect.Color rect))
                         \<lparr>A := setop E (Rect.Opacity rect)\<rparr>)]"
    if "Rect.Hr rect = 100" "Rect.Wp rect = 20"
    using showslide_rect_Hr [OF that(1), of E 1000 500 doc] that(2) by simp
  have b: "\<exists>c. doc_CenterRect (Rect.Xp rect) (Rect.Yp rect) (Rect.Wp rect)
              (Rect.Wp rect * (of_int (Canvas.Width (Deck.Canvas d))
                               / of_int (Canvas.Height (Deck.Canvas d)))) c
            \<in> set (canvas_of (showslide E w d n))"
    if "0 \<le> n" "n \<le> int (length (Deck.Slide d)) - 1"
      "rect \<in> set (Slide.Rect (Deck.Slide d ! nat n))" "Rect.Hr rect = 100"
    using showslide_has_rect [OF that(1,2,3), of E w]
      showslide_rect_Hr [OF that(4), of E _ _ "[]"]
    by auto
  have c: "\<exists>c. doc_Circle (Ellipse.Xp ellipse) (Ellipse.Yp ellipse) (Ellipse.Wp ellipse / 2) c
            \<in> set (canvas_of (showslide E w d n))"
    if "0 \<le> n" "n \<le> int (length (Deck.Slide d)) - 1"
      "ellipse \<in> set (Slide.Ellipse (Deck.Slide d ! nat n))" "Ellipse.Hr ellipse = 100"
    using showslide_has_ellipse [OF that(1,2,3), of E w]
      showslide_ellipse_Hr [OF that(4), of E "[]"]
    by auto
  show ?thesis
    using showslide_rect_Hr [of rect E cw ch doc] showslide_ellipse_Hr [of ellipse E doc] a b c
    by blast
qed

theorem Hr_100_height_from_width_witness:
  "showslide_rect sample_env 1000 500 sample_rect []
     = [doc_CenterRect 50 50 20 40 \<lparr>R = 128, G = 128, B = 128, A = 255\<rparr>] \<and>
   Rect.Hp sample_rect = 7 \<and>
   showslide_ellipse sample_env sample_ellipse []
     = [doc_Circle 50 50 10 \<lparr>R = 128, G = 128, B = 128, A = 255\<rparr>] \<and>
   (\<exists>c. doc_CenterRect 50 50 20 40 c
           \<in> set (canvas_of (showslide sample_env empty_world sample_deck 0))) \<and>
   (\<exists>c. doc_Circle 50 50 10 c
           \<in> set (canvas_of (showslide sample_env empty_world sample_deck 0)))"
proof -
  have r: "Rect.Hr sample_rect = 100 \<and> (500 :: rat) \<noteq> 0" by (simp add: sample_rect_def)
  have e: "Ellipse.Hr sample_ellipse = 100" by (simp add: sample_ellipse_def)
  have n: "(0 :: int) \<le> 0 \<and> 0 \<le> int (length (Deck.Slide sample_deck)) - 1 \<and>
           Canvas.Height (Deck.Canvas sample_deck) \<noteq> 0 \<and>
           sample_rect \<in> set (Slide.Rect (Deck.Slide sample_deck ! nat 0)) \<and>
           sample_ellipse \<in> set (Slide.Ellipse (Deck.Slide sample_deck ! nat 0))"
    by (simp add: sample_deck_def sample_slide_def)
  note t = Hr_100_height_from_width [of sample_rect 500 sample_env 1000 "[]" sample_ellipse 0
      sample_deck empty_world]
  have 1: "showslide_rect sample_env 1000 500 sample_rect []
           = [doc_CenterRect 50 50 20 40 \<lparr>R = 128, G = 128, B = 128, A = 255\<rparr>]"
    using t r by (simp add: sample_rect_def sample_env_def defaultColor_def setop_def)
  have 2: "showslide_ellipse sample_env sample_ellipse []
           = [doc_Circle 50 50 10 \<lparr>R = 128, G = 128, B = 128, A = 255\<rparr>]"
    using t e by (simp add: sample_ellipse_def sample_env_def defaultColor_def setop_def)
  have 3: "\<exists>c. doc_CenterRect 50 50 20 40 c
                \<in> set (canvas_of (showslide sample_env empty_world sample_deck 0))"
    using t r n by (simp add: sample_rect_def sample_deck_def)
  have 4: "\<exists>c. doc_Circle 50 50 10 c
                \<in> set (canvas_of (showslide sample_env empty_world sample_deck 0))"
    using t e n by (simp add: sample_ellipse_def)
  show ?thesis using 1 2 3 4 by (simp add: sample_rect_def)
qed

subsection \<open>Images\<close>









subsection \<open>Lines of text\<close>

lemma dotext_plain:
  assumes "ttype \<noteq> ''block''" "ttype \<noteq> ''code''"
  shows "dotext E [] x y fs wp rotation spacing tdata font align ttype color opacity
    = (if rotation > 0 then [doc_Rotate x y (rotation * (math_Pi / 180))] else [])
      @ concat (map (\<lambda>(k, t). showtext [] x (y - of_nat k * (spacing * fs)) t fs
                                 (ColorLookup E color) font align)
                  (zip [0..<length (Split tdata (CHR 0x0A))] (Split tdata (CHR 0x0A))))
      @ (if rotation > 0 then [gc_EndTransform] else [])"
  unfolding dotext_def Let_def using assms
  by (simp add: emit_def dotext_lines_append_ne dotext_lines_closed)

lemma showslide_text_plain:
  assumes "Text.Type t \<noteq> ''block''" "Text.Type t \<noteq> ''code''"
  shows "canvas_of (showslide_text E fg t w) =
    (let lp = (if Text.Lp t = 0 then 18 / 10 else Text.Lp t);
         ls = (lp * (12 / 10)) * Text.Sp t;
         tdata = (if Text.File t \<noteq> [] then fst (includefile E (Text.File t)) else Text.Tdata t);
         td = Split tdata (CHR 0x0A);
         c = ColorLookup E (if Text.Color t = [] then fg else Text.Color t);
         font = (if Text.Font t = [] then ''sans'' else Text.Font t)
     in canvas_of w
        @ (if Text.Rotation t > 0
           then [doc_Rotate (Text.Xp t) (Text.Yp t) (Text.Rotation t * (math_Pi / 180))] else [])
        @ concat (map (\<lambda>(k, line). showtext [] (Text.Xp t) (Text.Yp t - of_nat k * ls) line
                                      (Text.Sp t) c font (Text.Align t))
                    (zip [0..<length td] td))
        @ (if Text.Rotation t > 0 then [gc_EndTransform] else []))"
proof -
  have d: "dotext E doc x y fs wp rotation spacing tdata font align (Text.Type t) color opacity
    = doc @ (if rotation > 0 then [doc_Rotate x y (rotation * (math_Pi / 180))] else [])
      @ concat (map (\<lambda>(k, t). showtext [] x (y - of_nat k * (spacing * fs)) t fs
                                 (ColorLookup E color) font align)
                  (zip [0..<length (Split tdata (CHR 0x0A))] (Split tdata (CHR 0x0A))))
      @ (if rotation > 0 then [gc_EndTransform] else [])"
    for doc x y fs wp rotation spacing tdata font align color opacity
    using dotext_append [of E doc x y fs wp rotation spacing tdata font align "Text.Type t"
        color opacity]
      dotext_plain [OF assms, of E x y fs wp rotation spacing tdata font align color opacity]
    by simp
  show ?thesis
    unfolding showslide_text_def Let_def
    by (simp add: d linespacing_def case_prod_unfold)
qed

text \<open>
  C3, as stated, fails: \<^verbatim>\<open>showslide\<close> passes \<open>Lp * 1.2\<close> to \<^verbatim>\<open>dotext\<close>, not \<open>Lp\<close>. The
  sample text has \<open>Lp = 5\<close> and the font size 10 and two lines, the first at \<open>y = 50\<close>;
  the second is drawn at \<open>50 - 60\<close>, not at \<open>50 - 5 * 10\<close>.
\<close>

theorem text_line_advance_counterexample:
  "Text.Type sample_text \<noteq> ''block'' \<and> Text.Type sample_text \<noteq> ''code'' \<and>
   Text.Lp sample_text = 5 \<and> Text.Sp sample_text = 10 \<and> Text.Yp sample_text = 50 \<and>
   canvas_of (showslide_text sample_env ''black'' sample_text empty_world)
     = [doc_Text 10 50 10 ''a'' \<lparr>R = 0, G = 0, B = 0, A = 255\<rparr>,
        doc_Text 10 (- 10) 10 ''b'' \<lparr>R = 0, G = 0, B = 0, A = 255\<rparr>] \<and>
   (50 :: rat) - 5 * 10 \<noteq> - 10"
  using sample_text_calls by (simp add: sample_text_def empty_world_def)

text \<open>
  C3 (amended). For every text whose type is neither \<open>block\<close> nor \<open>code\<close>, the text (the
  file's contents when a file is named) is split at the newlines and line \<open>k\<close> (from 0)
  is drawn at \<open>y - k * ls\<close>, each line \<open>ls\<close> below the one before, where
  \<open>ls = (Lp * 1.2) * fontSize\<close> and \<open>Lp\<close> is 1.8 when it is 0; the lines stand between the
  start and the end of a rotation when the rotation is above 0.
\<close>

theorem text_line_advance:
  "Text.Type t \<noteq> ''block'' \<and> Text.Type t \<noteq> ''code'' \<longrightarrow>
   canvas_of (showslide_text E fg t w) =
    (let lp = (if Text.Lp t = 0 then 18 / 10 else Text.Lp t);
         ls = (lp * (12 / 10)) * Text.Sp t;
         tdata = (if Text.File t \<noteq> [] then fst (includefile E (Text.File t)) else Text.Tdata t);
         td = Split tdata (CHR 0x0A);
         c = ColorLookup E (if Text.Color t = [] then fg else Text.Color t);
         font = (if Text.Font t = [] then ''sans'' else Text.Font t)
     in canvas_of w
        @ (if Text.Rotation t > 0
           then [doc_Rotate (Text.Xp t) (Text.Yp t) (Text.Rotation t * (math_Pi / 180))] else [])
        @ concat (map (\<lambda>(k, line). showtext [] (Text.Xp t) (Text.Yp t - of_nat k * ls) line
                                      (Text.Sp t) c font (Text.Align t))
                    (zip [0..<length td] td))
        @ (if Text.Rotation t > 0 then [gc_EndTransform] else []))"
  using showslide_text_plain [of t E fg w] by blast

theorem text_line_advance_witness:
  "Text.Type sample_text \<noteq> ''block'' \<and> Text.Type sample_text \<noteq> ''code'' \<and>
   canvas_of (showslide_text sample_env ''black'' (sample_text\<lparr>Text.Lp := 0\<rparr>) empty_world)
     = [doc_Text 10 50 10 ''a'' \<lparr>R = 0, G = 0, B = 0, A = 255\<rparr>,
        doc_Text 10 (50 - (18 / 10 * (12 / 10)) * 10) 10 ''b''
          \<lparr>R = 0, G = 0, B = 0, A = 255\<rparr>]"
proof -
  have h: "Text.Type (sample_text\<lparr>Text.Lp := 0\<rparr>) \<noteq> ''block'' \<and>
           Text.Type (sample_text\<lparr>Text.Lp := 0\<rparr>) \<noteq> ''code''"
    by (simp add: sample_text_def)
  have s: "Split [CHR ''a'', CHR 0x0A, CHR ''b''] (CHR 0x0A) = [''a'', ''b'']"
    by (simp add: Split_def)
  have z: "zip [0..<2] [''a'', ''b''] = [(0, ''a''), (1, ''b'')]"
    by (simp add: upt_conv_Cons)
  from text_line_advance [of "sample_text\<lparr>Text.Lp := 0\<rparr>" sample_env "''black''" empty_world] h
  have "canvas_of (showslide_text sample_env ''black'' (sample_text\<lparr>Text.Lp := 0\<rparr>) empty_world)
     = [doc_Text 10 50 10 ''a'' \<lparr>R = 0, G = 0, B = 0, A = 255\<rparr>,
        doc_Text 10 (50 - (18 / 10 * (12 / 10)) * 10) 10 ''b''
          \<lparr>R = 0, G = 0, B = 0, A = 255\<rparr>]"
    by (simp add: sample_text_def sample_env_def empty_world_def s z showtext_def loadfont_def
        emit_def)
  then show ?thesis using h by (simp add: sample_text_def)
qed


subsection \<open>Polygons\<close>

declare dopoly_loop.simps [simp del]

lemma Split_from_length: "length (Split_from sep cur s) = count_list s sep + 1"
  by (induction s arbitrary: cur) auto

lemma Split_length: "length (Split s sep) = count_list s sep + 1"
  by (simp add: Split_def Split_from_length)

lemma dopoly_loop_maps:
  assumes "length px = length xs" "length py = length xs" "length ys = length xs"
    and "i \<le> length xs"
  shows "dopoly_loop E xs ys i px py
    = (take i px @ map (\<lambda>s. case ParseFloat E s 32 of None \<Rightarrow> 0 | Some x \<Rightarrow> x) (drop i xs),
       take i py @ map (\<lambda>s. case ParseFloat E s 32 of None \<Rightarrow> 0 | Some y \<Rightarrow> y) (drop i ys))"
  using assms
proof (induction E xs ys i px py rule: dopoly_loop.induct)
  case (1 E xs ys i px py)
  let ?c = "\<lambda>s. case ParseFloat E s 32 of None \<Rightarrow> 0 | Some x \<Rightarrow> x"
  show ?case
  proof (cases "i < length xs")
    case False
    with "1.prems" show ?thesis
      by (subst dopoly_loop.simps) simp
  next
    case True
    let ?px = "px[i := ?c (xs ! i)]"
    let ?py = "py[i := ?c (ys ! i)]"
    have px: "(case ParseFloat E (xs ! i) 32 of None \<Rightarrow> px[i := 0] | Some x \<Rightarrow> px[i := x]) = ?px"
      by (simp split: option.splits)
    have py: "(case ParseFloat E (ys ! i) 32 of None \<Rightarrow> py[i := 0] | Some y \<Rightarrow> py[i := y]) = ?py"
      by (simp split: option.splits)
    have step: "dopoly_loop E xs ys i px py = dopoly_loop E xs ys (i + 1) ?px ?py"
      using True by (subst dopoly_loop.simps) (simp add: px py Let_def)
    have ih: "dopoly_loop E xs ys (i + 1) ?px ?py
      = (take (i + 1) ?px @ map ?c (drop (i + 1) xs), take (i + 1) ?py @ map ?c (drop (i + 1) ys))"
      using "1.IH" [OF True px [symmetric] py [symmetric]] "1.prems" True by simp
    have tx: "take (i + 1) ?px = take i px @ [?c (xs ! i)]"
      using True "1.prems" by (simp add: take_Suc_conv_app_nth)
    have ty: "take (i + 1) ?py = take i py @ [?c (ys ! i)]"
      using True "1.prems" by (simp add: take_Suc_conv_app_nth)
    have dx: "drop i xs = xs ! i # drop (i + 1) xs"
      using True by (simp add: Cons_nth_drop_Suc)
    have dy: "drop i ys = ys ! i # drop (i + 1) ys"
      using True "1.prems" by (simp add: Cons_nth_drop_Suc)
    show ?thesis
      unfolding step ih tx ty dx dy by simp
  qed
qed

lemma dopoly_drawn:
  assumes "length (Split xc (CHR '' '')) = length (Split yc (CHR '' ''))"
    and "3 \<le> length (Split xc (CHR '' ''))"
  shows "dopoly E doc xc yc cw ch color opacity
    = doc @ [doc_Polygon
               (map (\<lambda>s. case ParseFloat E s 32 of None \<Rightarrow> 0 | Some x \<Rightarrow> x)
                  (Split xc (CHR '' '')))
               (map (\<lambda>s. case ParseFloat E s 32 of None \<Rightarrow> 0 | Some y \<Rightarrow> y)
                  (Split yc (CHR '' '')))
               ((ColorLookup E color)\<lparr>A := setop E opacity\<rparr>)]"
proof -
  let ?xs = "Split xc (CHR '' '')" and ?ys = "Split yc (CHR '' '')"
  let ?c = "\<lambda>s. case ParseFloat E s 32 of None \<Rightarrow> (0 :: rat) | Some x \<Rightarrow> x"
  have "dopoly_loop E ?xs ?ys 0 (replicate (length ?xs) 0) (replicate (length ?xs) 0)
    = (take 0 (replicate (length ?xs) 0) @ map ?c (drop 0 ?xs),
       take 0 (replicate (length ?xs) 0) @ map ?c (drop 0 ?ys))"
  proof (rule dopoly_loop_maps)
    show "length (replicate (length ?xs) (0 :: rat)) = length ?xs" by simp
    show "length (replicate (length ?xs) (0 :: rat)) = length ?xs" by simp
    show "length ?ys = length ?xs" using assms(1) by simp
    show "0 \<le> length ?xs" by simp
  qed
  then have l: "dopoly_loop E ?xs ?ys 0 (replicate (length ?xs) 0) (replicate (length ?xs) 0)
    = (map ?c ?xs, map ?c ?ys)"
    by simp
  have ne: "\<not> length ?xs \<noteq> length ?ys" "\<not> (length ?xs < 3 \<or> length ?ys < 3)"
    using assms by simp_all
  show ?thesis
    unfolding dopoly_def Let_def
    by (simp only: ne if_False l prod.case emit_def)
qed

lemma dopoly_dropped:
  assumes "length (Split xc (CHR '' '')) \<noteq> length (Split yc (CHR '' '')) \<or>
           (length (Split xc (CHR '' '')) < 3 \<and> length (Split yc (CHR '' '')) < 3)"
  shows "dopoly E doc xc yc cw ch color opacity = doc"
  unfolding dopoly_def Let_def using assms by auto

text \<open>
  C7. \<^verbatim>\<open>dopoly\<close> splits the two strings of coordinates at the spaces. For every pair
  whose numbers of fields differ, or are both below 3, no call is made on the canvas. For
  every pair of three fields each, exactly one call is made. Whenever the numbers of
  fields agree and are at least 3 the one call made is the polygon of the parsed
  coordinates, where every field that does not parse is 0.
\<close>

theorem dopoly_validated:
  "(length (Split xc (CHR '' '')) \<noteq> length (Split yc (CHR '' '')) \<or>
    (length (Split xc (CHR '' '')) < 3 \<and> length (Split yc (CHR '' '')) < 3) \<longrightarrow>
      dopoly E doc xc yc cw ch color opacity = doc) \<and>
   (length (Split xc (CHR '' '')) = 3 \<and> length (Split yc (CHR '' '')) = 3 \<longrightarrow>
      (\<exists>px py c. length px = 3 \<and> length py = 3 \<and>
         dopoly E doc xc yc cw ch color opacity = doc @ [doc_Polygon px py c])) \<and>
   (length (Split xc (CHR '' '')) = length (Split yc (CHR '' '')) \<and>
    3 \<le> length (Split xc (CHR '' '')) \<longrightarrow>
      dopoly E doc xc yc cw ch color opacity
      = doc @ [doc_Polygon
                 (map (\<lambda>s. case ParseFloat E s 32 of None \<Rightarrow> 0 | Some x \<Rightarrow> x)
                    (Split xc (CHR '' '')))
                 (map (\<lambda>s. case ParseFloat E s 32 of None \<Rightarrow> 0 | Some y \<Rightarrow> y)
                    (Split yc (CHR '' '')))
                 ((ColorLookup E color)\<lparr>A := setop E opacity\<rparr>)]) \<and>
   length (Split xc (CHR '' '')) = count_list xc (CHR '' '') + 1 \<and>
   length (Split yc (CHR '' '')) = count_list yc (CHR '' '') + 1"
proof -
  have three: "\<exists>px py c. length px = 3 \<and> length py = 3 \<and>
         dopoly E doc xc yc cw ch color opacity = doc @ [doc_Polygon px py c]"
    if "length (Split xc (CHR '' '')) = 3" "length (Split yc (CHR '' '')) = 3"
  proof -
    have "dopoly E doc xc yc cw ch color opacity
      = doc @ [doc_Polygon
                 (map (\<lambda>s. case ParseFloat E s 32 of None \<Rightarrow> 0 | Some x \<Rightarrow> x)
                    (Split xc (CHR '' '')))
                 (map (\<lambda>s. case ParseFloat E s 32 of None \<Rightarrow> 0 | Some y \<Rightarrow> y)
                    (Split yc (CHR '' '')))
                 ((ColorLookup E color)\<lparr>A := setop E opacity\<rparr>)]"
      using that by (intro dopoly_drawn) simp_all
    moreover have "length (map (\<lambda>s. case ParseFloat E s 32 of None \<Rightarrow> 0 | Some x \<Rightarrow> x)
                     (Split xc (CHR '' ''))) = 3"
      using that by simp
    moreover have "length (map (\<lambda>s. case ParseFloat E s 32 of None \<Rightarrow> 0 | Some y \<Rightarrow> y)
                     (Split yc (CHR '' ''))) = 3"
      using that by simp
    ultimately show ?thesis by blast
  qed
  show ?thesis
    using dopoly_dropped [of xc yc E doc cw ch color opacity]
      dopoly_drawn [of xc yc E doc cw ch color opacity] three
      Split_length [of xc "CHR '' ''"] Split_length [of yc "CHR '' ''"]
    by blast
qed

theorem dopoly_validated_witness:
  "dopoly sample_env [] ''1 2 3 4'' ''1 2 3'' 1000 500 ''red'' 0 = [] \<and>
   dopoly sample_env [] ''1 2'' ''3 4'' 1000 500 ''red'' 0 = [] \<and>
   dopoly sample_env [] ''10 20 x'' ''10 -1.5 30'' 1000 500 ''red'' 0
     = [doc_Polygon [10, 20, 0] [10, - (3 / 2), 30] \<lparr>R = 255, G = 0, B = 0, A = 255\<rparr>]"
proof -
  have s: "Split ''1 2 3 4'' (CHR '' '') = [''1'', ''2'', ''3'', ''4'']"
    "Split ''1 2 3'' (CHR '' '') = [''1'', ''2'', ''3'']"
    "Split ''1 2'' (CHR '' '') = [''1'', ''2'']"
    "Split ''3 4'' (CHR '' '') = [''3'', ''4'']"
    "Split ''10 20 x'' (CHR '' '') = [''10'', ''20'', ''x'']"
    "Split ''10 -1.5 30'' (CHR '' '') = [''10'', ''-1.5'', ''30'']"
    by (simp_all add: Split_def)
  have 1: "dopoly sample_env [] ''1 2 3 4'' ''1 2 3'' 1000 500 ''red'' 0 = []"
    using dopoly_validated [of "''1 2 3 4''" "''1 2 3''" sample_env "[]" 1000 500 "''red''" 0]
    by (simp add: s)
  have 2: "dopoly sample_env [] ''1 2'' ''3 4'' 1000 500 ''red'' 0 = []"
    using dopoly_validated [of "''1 2''" "''3 4''" sample_env "[]" 1000 500 "''red''" 0]
    by (simp add: s)
  have 3: "dopoly sample_env [] ''10 20 x'' ''10 -1.5 30'' 1000 500 ''red'' 0
     = [doc_Polygon [10, 20, 0] [10, - (3 / 2), 30] \<lparr>R = 255, G = 0, B = 0, A = 255\<rparr>]"
    using dopoly_validated [of "''10 20 x''" "''10 -1.5 30''" sample_env "[]" 1000 500 "''red''" 0]
    by (simp add: s ParseFloat_def isdigit_def decimal_def MaxFloat_def sample_env_def setop_def)
  show ?thesis using 1 2 3 by simp
qed

subsection \<open>The colour of a list item\<close>

text \<open>
  C1 (a defect of the code). The list of the sample has the colour \<open>black\<close>; its first
  item carries the colour \<open>red\<close>, its second item carries none. \<^verbatim>\<open>dolist\<close> draws both in
  red: the loop assigns the item's colour to the variable \<open>c\<close> that holds the colour of
  the list and never assigns the colour of the list again.
\<close>

theorem dolist_override_carries_over:
  "ColorLookup sample_env ''black'' = \<lparr>R = 0, G = 0, B = 0, A = 255\<rparr> \<and>
   ColorLookup sample_env ''red'' = \<lparr>R = 255, G = 0, B = 0, A = 255\<rparr> \<and>
   dolist sample_env [] 1000 10 80 5 95 0 (18 / 10)
     [\<lparr>ListItem.Color = ''red'', ListText = ''a''\<rparr>, \<lparr>ListItem.Color = [], ListText = ''b''\<rparr>]
     [] [] [] ''black'' 0
   = [doc_Text 10 80 5 ''a'' \<lparr>R = 255, G = 0, B = 0, A = 255\<rparr>,
      doc_Text 10 (337 / 5) 5 ''b'' \<lparr>R = 255, G = 0, B = 0, A = 255\<rparr>]"
  by (simp add: sample_env_def dolist_def showtext_def loadfont_def listspacing_def Let_def
      emit_def)

text \<open>The same for every list: an item without a colour of its own that follows an item
  with one is drawn in that item's colour, whatever the colour of the list.\<close>

lemma dolist_items_colour_persists:
  assumes "ListItem.Color a \<noteq> []" "ListItem.Color b = []"
    and "ltype \<noteq> ''number''" "ltype \<noteq> ''bullet''"
  shows "dolist_items E [] x y fs ls i c [a, b] font ltype align
    = showtext [] x y (ListText a) fs (ColorLookup E (ListItem.Color a)) font align
      @ showtext [] x (y - ls) (ListText b) fs (ColorLookup E (ListItem.Color a)) font align"
  using assms
    showtext_append [of "showtext [] x y (ListText a) fs (ColorLookup E (ListItem.Color a)) font align"]
  by (simp add: Let_def loadfont_def)

subsection \<open>Navigation\<close>

lemma slidedeck_clamp_range:
  "0 \<le> nslides \<Longrightarrow>
   0 \<le> slidenumber (slidedeck_clamp nslides st) \<and> slidenumber (slidedeck_clamp nslides st) \<le> nslides"
  by (simp add: slidedeck_clamp_def Let_def)

lemmas key_names =
  key_NameLeftArrow_def key_NameUpArrow_def key_NameRightArrow_def key_NameDownArrow_def
  key_NamePageUp_def key_NamePageDown_def key_NameEscape_def key_NameSpace_def
  lit_home_def lit_end_def lit_return_def key_ModCtrl_def key_ModShift_def
  pointer_ButtonPrimary_def pointer_ButtonSecondary_def pointer_ButtonTertiary_def

lemma forward_step:
  "ev \<in> set (forward_events m) \<Longrightarrow>
   kbpointer [ev] ns st = Inr (st\<lparr>slidenumber := slidenumber st + 1\<rparr>) \<or>
   kbpointer [ev] ns st = Inr (st\<lparr>slidenumber := slidenumber st + 1, pressed := True\<rparr>)"
  by (auto simp: forward_events_def kbpointer_event_def key_names)

lemma backward_step:
  "ev \<in> set (backward_events m) \<Longrightarrow>
   kbpointer [ev] ns st = Inr (st\<lparr>slidenumber := slidenumber st - 1\<rparr>) \<or>
   kbpointer [ev] ns st = Inr (st\<lparr>slidenumber := slidenumber st - 1, pressed := True\<rparr>)"
  by (auto simp: backward_events_def kbpointer_event_def key_names)

lemma last_step:
  "ev \<in> set (last_events m) \<Longrightarrow> kbpointer [ev] ns st = Inr (st\<lparr>slidenumber := ns\<rparr>)"
  by (auto simp: last_events_def kbpointer_event_def key_names)

text \<open>
  C2, as stated, fails for the deck without slides: \<open>slideCount - 1\<close> is \<open>-1\<close>, the first
  state has the index 0, the two tests of the frame loop leave it 0, and no index is in
  \<open>[0, -1]\<close>.
\<close>

theorem navigation_empty_deck_counterexample:
  "length (Deck.Slide empty_deck) = 0 \<and>
   slidedeck_init empty_deck 1
     = (- 1, \<lparr>pressed = False, gridstate = False, slidenumber = 0\<rparr>) \<and>
   slidenumber (slidedeck_clamp (- 1) \<lparr>pressed = False, gridstate = False, slidenumber = 0\<rparr>) = 0 \<and>
   \<not> ((0 :: int) \<le> 0 \<and> (0 :: int) \<le> int (length (Deck.Slide empty_deck)) - 1)"
  by (simp add: empty_deck_def slidedeck_init_def slidedeck_clamp_def)

text \<open>
  C2 (amended). For every deck with at least one slide, after the two tests of the frame
  loop the index is in \<open>[0, slideCount - 1]\<close>, whatever it was before. From the index
  \<open>slideCount - 1\<close> every event that steps forward leaves an index that the next frame
  makes 0; from the index 0 every event that steps backward leaves one that the next
  frame makes \<open>slideCount - 1\<close>; from every index every event that jumps to the last slide
  gives \<open>slideCount - 1\<close>.
\<close>

theorem navigation_circular:
  "1 \<le> length (Deck.Slide deck) \<longrightarrow>
   (let nslides = int (length (Deck.Slide deck)) - 1 in
      0 \<le> slidenumber (slidedeck_clamp nslides st) \<and>
      slidenumber (slidedeck_clamp nslides st) \<le> nslides \<and>
      (\<forall>ev\<in>set (forward_events m). slidenumber st = nslides \<longrightarrow>
         (\<exists>st'. kbpointer [ev] nslides st = Inr st' \<and>
                slidenumber (slidedeck_clamp nslides st') = 0)) \<and>
      (\<forall>ev\<in>set (backward_events m). slidenumber st = 0 \<longrightarrow>
         (\<exists>st'. kbpointer [ev] nslides st = Inr st' \<and>
                slidenumber (slidedeck_clamp nslides st') = nslides)) \<and>
      (\<forall>ev\<in>set (last_events m).
         (\<exists>st'. kbpointer [ev] nslides st = Inr st' \<and> slidenumber st' = nslides \<and>
                slidenumber (slidedeck_clamp nslides st') = nslides)))"
proof
  assume one: "1 \<le> length (Deck.Slide deck)"
  define nslides where "nslides = int (length (Deck.Slide deck)) - 1"
  have nn: "0 \<le> nslides" using one unfolding nslides_def by arith
  have r: "0 \<le> slidenumber (slidedeck_clamp nslides st) \<and>
           slidenumber (slidedeck_clamp nslides st) \<le> nslides"
    using nn by (rule slidedeck_clamp_range)
  have f: "\<exists>st'. kbpointer [ev] nslides st = Inr st' \<and>
                 slidenumber (slidedeck_clamp nslides st') = 0"
    if "ev \<in> set (forward_events m)" "slidenumber st = nslides" for ev
    using forward_step [OF that(1), of nslides st] that(2) nn
    by (auto simp: slidedeck_clamp_def)
  have b: "\<exists>st'. kbpointer [ev] nslides st = Inr st' \<and>
                 slidenumber (slidedeck_clamp nslides st') = nslides"
    if "ev \<in> set (backward_events m)" "slidenumber st = 0" for ev
    using backward_step [OF that(1), of nslides st] that(2) nn
    by (auto simp: slidedeck_clamp_def)
  have l: "\<exists>st'. kbpointer [ev] nslides st = Inr st' \<and> slidenumber st' = nslides \<and>
                 slidenumber (slidedeck_clamp nslides st') = nslides"
    if "ev \<in> set (last_events m)" for ev
    using last_step [OF that, of nslides st] nn
    by (auto simp: slidedeck_clamp_def)
  show "let nslides = int (length (Deck.Slide deck)) - 1 in
      0 \<le> slidenumber (slidedeck_clamp nslides st) \<and>
      slidenumber (slidedeck_clamp nslides st) \<le> nslides \<and>
      (\<forall>ev\<in>set (forward_events m). slidenumber st = nslides \<longrightarrow>
         (\<exists>st'. kbpointer [ev] nslides st = Inr st' \<and>
                slidenumber (slidedeck_clamp nslides st') = 0)) \<and>
      (\<forall>ev\<in>set (backward_events m). slidenumber st = 0 \<longrightarrow>
         (\<exists>st'. kbpointer [ev] nslides st = Inr st' \<and>
                slidenumber (slidedeck_clamp nslides st') = nslides)) \<and>
      (\<forall>ev\<in>set (last_events m).
         (\<exists>st'. kbpointer [ev] nslides st = Inr st' \<and> slidenumber st' = nslides \<and>
                slidenumber (slidedeck_clamp nslides st') = nslides))"
    unfolding Let_def nslides_def [symmetric]
    using r f b l by blast
qed

theorem navigation_circular_witness:
  "length (Deck.Slide five_slides) = 5 \<and>
   (\<exists>st'. kbpointer [key_Event ''F'' 0 key_Press] 4
             \<lparr>pressed = False, gridstate = False, slidenumber = 4\<rparr> = Inr st' \<and>
          slidenumber (slidedeck_clamp 4 st') = 0) \<and>
   (\<exists>st'. kbpointer [key_Event key_NameLeftArrow 0 key_Press] 4
             \<lparr>pressed = False, gridstate = False, slidenumber = 0\<rparr> = Inr st' \<and>
          slidenumber (slidedeck_clamp 4 st') = 4) \<and>
   (\<exists>st'. kbpointer [key_Event ''$'' 0 key_Press] 4
             \<lparr>pressed = False, gridstate = False, slidenumber = 2\<rparr> = Inr st' \<and>
          slidenumber (slidedeck_clamp 4 st') = 4) \<and>
   slidenumber (slidedeck_clamp 4 \<lparr>pressed = False, gridstate = False, slidenumber = 7\<rparr>) = 0"
proof -
  have n: "length (Deck.Slide five_slides) = 5" by (simp add: five_slides_def)
  have one: "1 \<le> length (Deck.Slide five_slides)" by (simp add: n)
  have ns: "int (length (Deck.Slide five_slides)) - 1 = 4" by (simp add: n)
  have fe: "key_Event ''F'' 0 key_Press \<in> set (forward_events 0)"
    by (simp add: forward_events_def)
  have be: "key_Event key_NameLeftArrow 0 key_Press \<in> set (backward_events 0)"
    by (simp add: backward_events_def)
  have le: "key_Event ''$'' 0 key_Press \<in> set (last_events 0)"
    by (simp add: last_events_def)
  note t4 = navigation_circular
      [of five_slides "\<lparr>pressed = False, gridstate = False, slidenumber = 4\<rparr>" 0,
        unfolded Let_def ns]
  note t0 = navigation_circular
      [of five_slides "\<lparr>pressed = False, gridstate = False, slidenumber = 0\<rparr>" 0,
        unfolded Let_def ns]
  note t2 = navigation_circular
      [of five_slides "\<lparr>pressed = False, gridstate = False, slidenumber = 2\<rparr>" 0,
        unfolded Let_def ns]
  note t7 = navigation_circular
      [of five_slides "\<lparr>pressed = False, gridstate = False, slidenumber = 7\<rparr>" 0,
        unfolded Let_def ns]
  have 1: "\<exists>st'. kbpointer [key_Event ''F'' 0 key_Press] 4
             \<lparr>pressed = False, gridstate = False, slidenumber = 4\<rparr> = Inr st' \<and>
          slidenumber (slidedeck_clamp 4 st') = 0"
    using t4 one fe by auto
  have 2: "\<exists>st'. kbpointer [key_Event key_NameLeftArrow 0 key_Press] 4
             \<lparr>pressed = False, gridstate = False, slidenumber = 0\<rparr> = Inr st' \<and>
          slidenumber (slidedeck_clamp 4 st') = 4"
    using t0 one be by auto
  have 3: "\<exists>st'. kbpointer [key_Event ''$'' 0 key_Press] 4
             \<lparr>pressed = False, gridstate = False, slidenumber = 2\<rparr> = Inr st' \<and>
          slidenumber (slidedeck_clamp 4 st') = 4"
    using t2 one le by auto
  have 4: "slidenumber (slidedeck_clamp 4 \<lparr>pressed = False, gridstate = False, slidenumber = 7\<rparr>) = 0"
    by (simp add: slidedeck_clamp_def)
  show ?thesis using n 1 2 3 4 by blast
qed

end
